theory Spec2Isabelle
  imports Main
begin

section \<open>Python string operations used by ostree-delta.py\<close>

text \<open>
  Strings are lists of characters; a character stands for a code point below 256.
  \<open>str.isspace\<close> holds below 256 for the code points 9..13, 28..32, 0x85 and 0xA0;
  \<open>str.splitlines\<close> breaks at LF, CR, CR LF, VT, FF, FS, GS, RS and NEL.
\<close>

definition isspace :: "char \<Rightarrow> bool" where
  "isspace c = (c \<in> {CHR 0x09, CHR 0x0A, CHR 0x0B, CHR 0x0C, CHR 0x0D,
                      CHR 0x1C, CHR 0x1D, CHR 0x1E, CHR 0x1F, CHR 0x20,
                      CHR 0x85, CHR 0xA0})"

definition islinebreak :: "char \<Rightarrow> bool" where
  "islinebreak c = (c \<in> {CHR 0x0A, CHR 0x0B, CHR 0x0C, CHR 0x0D,
                          CHR 0x1C, CHR 0x1D, CHR 0x1E, CHR 0x85})"

definition lstrip :: "string \<Rightarrow> string" where
  "lstrip s = dropWhile isspace s"

definition rstrip :: "string \<Rightarrow> string" where
  "rstrip s = rev (dropWhile isspace (rev s))"

definition strip :: "string \<Rightarrow> string" where
  "strip s = rstrip (lstrip s)"

definition startswith :: "string \<Rightarrow> string \<Rightarrow> bool" where
  "startswith s p = (take (length p) s = p)"

text \<open>
  \<open>s.splitlines()\<close>: the lines of \<open>s\<close> without their line breaks; a final line break
  opens no empty last line, and CR LF is one break.
\<close>

fun splitlines :: "string \<Rightarrow> string list" where
  "splitlines [] = []"
| "splitlines (c # cs) =
     (if islinebreak c then
        (case cs of
           d # ds \<Rightarrow> if c = CHR 0x0D \<and> d = CHR 0x0A then [] # splitlines ds
                     else [] # splitlines cs
         | [] \<Rightarrow> [[]])
      else (case splitlines cs of
              [] \<Rightarrow> [[c]]
            | l # ls \<Rightarrow> (c # l) # ls))"

text \<open>\<open>s.split()\<close>: the maximal runs of non-whitespace characters of \<open>s\<close>.\<close>

function split_ws :: "string \<Rightarrow> string list" where
  "split_ws [] = []"
| "split_ws (c # cs) =
     (if isspace c then split_ws cs
      else (takeWhile (\<lambda>x. \<not> isspace x) (c # cs))
             # split_ws (dropWhile (\<lambda>x. \<not> isspace x) cs))"
  by pat_completeness auto
termination
  by (relation "measure length") (auto simp: length_dropWhile_le less_Suc_eq_le)

text \<open>\<open>s.split(sep, 1)\<close> for a separator of one character: at most one cut, at the first
  occurrence.\<close>

definition split_once :: "char \<Rightarrow> string \<Rightarrow> string list" where
  "split_once sep s =
     (if sep \<in> set s
      then [takeWhile (\<lambda>x. x \<noteq> sep) s, tl (dropWhile (\<lambda>x. x \<noteq> sep) s)]
      else [s])"

text \<open>\<open>sep.join(xs)\<close>.\<close>

fun join :: "string \<Rightarrow> string list \<Rightarrow> string" where
  "join sep [] = []"
| "join sep [x] = x"
| "join sep (x # y # ys) = x @ sep @ join sep (y # ys)"

text \<open>
  \<open>repr\<close> of a string, as \<open>print\<close> and \<open>format\<close> show the elements of a list: single
  quotes unless the string holds a single quote and no double quote; the quote and the
  backslash escaped; TAB, LF, CR as \<open>\t\<close>, \<open>\n\<close>, \<open>\r\<close>; every other non-printable
  code point below 256 as \<open>\xhh\<close>.
\<close>

definition isprintable :: "char \<Rightarrow> bool" where
  "isprintable c =
     (let n = (of_char c :: nat)
      in (32 \<le> n \<and> n < 127) \<or> (161 \<le> n \<and> n \<noteq> 173))"

definition hex_digit :: "nat \<Rightarrow> char" where
  "hex_digit n = ''0123456789abcdef'' ! (n mod 16)"

definition repr_char :: "char \<Rightarrow> char \<Rightarrow> string" where
  "repr_char q c =
     (if c = q \<or> c = CHR 0x5C then [CHR 0x5C, c]
      else if c = CHR 0x09 then [CHR 0x5C, CHR ''t'']
      else if c = CHR 0x0A then [CHR 0x5C, CHR ''n'']
      else if c = CHR 0x0D then [CHR 0x5C, CHR ''r'']
      else if \<not> isprintable c
        then [CHR 0x5C, CHR ''x'', hex_digit (of_char c div 16), hex_digit (of_char c)]
      else [c])"

definition repr_str :: "string \<Rightarrow> string" where
  "repr_str s =
     (let q = (if CHR 0x27 \<in> set s \<and> CHR 0x22 \<notin> set s then CHR 0x22 else CHR 0x27)
      in [q] @ concat (map (repr_char q) s) @ [q])"

definition repr_list :: "string list \<Rightarrow> string" where
  "repr_list xs = ''['' @ join '', '' (map repr_str xs) @ '']''"

text \<open>Decimal digits of a natural number, for \<open>"{}".format(n)\<close>.\<close>

fun str_nat :: "nat \<Rightarrow> string" where
  "str_nat n =
     (if n < 10 then [hex_digit n] else str_nat (n div 10) @ [hex_digit (n mod 10)])"

section \<open>The environment of the script and its effects\<close>

text \<open>
  A subprocess is given by what it writes and by the time it takes to exit. The script
  sees the outside through three things: the external tools, which answer a command
  depending on the commands run before it, and the two file-system tests of
  \<open>ensure_is_directory\<close>. Every subprocess exits after some finite time. Paths are
  the strings of the resolved \<open>pathlib.Path\<close> objects.
\<close>

record proc =
  stdout :: string
  stderr :: string
  runtime :: nat

record env =
  tool :: "string list list \<Rightarrow> string list \<Rightarrow> proc"
  path_exists :: "string \<Rightarrow> bool"
  path_is_dir :: "string \<Rightarrow> bool"

text \<open>
  What a run does, in order: a string printed, a list printed (\<open>print\<close> shows the
  \<open>repr\<close> of its elements, which for the \<open>Path\<close> among the arguments of \<open>tar\<close> is
  not that of a string, so the event keeps the list), a warning issued, a subprocess
  started (with the process it turned out to be), a subprocess killed, a directory created,
  a file written.
\<close>

datatype event =
    Print string
  | Print_list "string list"
  | Warn string
  | Exec "string list" proc
  | Kill "string list"
  | Makedirs string
  | Write_file string string

datatype exn =
    SystemExit int
  | ValueError string
  | NameError string
  | IndexError
  | OSError string

fun cmds_of :: "event list \<Rightarrow> string list list" where
  "cmds_of [] = []"
| "cmds_of (Exec c p # es) = c # cmds_of es"
| "cmds_of (e # es) = cmds_of es"

text \<open>
  A computation takes the commands run so far and gives its result, or the exception it
  raises, with the events it added.
\<close>

type_synonym 'a io = "string list list \<Rightarrow> (exn + 'a) \<times> event list"

definition return_io :: "'a \<Rightarrow> 'a io" where
  "return_io x = (\<lambda>h. (Inr x, []))"

definition raise_io :: "exn \<Rightarrow> 'a io" where
  "raise_io e = (\<lambda>h. (Inl e, []))"

definition emit :: "event \<Rightarrow> unit io" where
  "emit ev = (\<lambda>h. (Inr (), [ev]))"

definition bind_io :: "'a io \<Rightarrow> ('a \<Rightarrow> 'b io) \<Rightarrow> 'b io" where
  "bind_io m f =
     (\<lambda>h. case m h of
             (Inl e, evs) \<Rightarrow> (Inl e, evs)
           | (Inr x, evs) \<Rightarrow>
               (case f x (h @ cmds_of evs) of (r, evs') \<Rightarrow> (r, evs @ evs')))"

text \<open>\<open>for x in xs: print(f(x))\<close>.\<close>

fun print_each :: "string list \<Rightarrow> unit io" where
  "print_each [] = return_io ()"
| "print_each (x # xs) = bind_io (emit (Print x)) (\<lambda>_. print_each xs)"

text \<open>\<open>xs[i]\<close> for \<open>i \<ge> 0\<close>.\<close>

definition index :: "'a list \<Rightarrow> nat \<Rightarrow> exn + 'a" where
  "index xs i = (if i < length xs then Inr (xs ! i) else Inl IndexError)"

section \<open>The functions of ostree-delta.py\<close>

text \<open>
  The source's names lose their leading underscore. \<open>warning\<close> issues a UserWarning,
  which the default filter shows; the event keeps its message. Creating the output
  directory, writing the metadata file and starting a subprocess are events of the run. In
  the functions of this section the operating system refuses none of them; what happens
  when it does is in the section on its refusals.
\<close>

definition warning :: "string \<Rightarrow> unit io" where
  "warning message = emit (Warn message)"

text \<open>
  The names the module binds: its imports and its functions. A global name outside this
  list (and outside the built-ins) raises NameError when it is evaluated.
\<close>

definition module_names :: "string list" where
  "module_names =
     [''argparse'', ''os'', ''pathlib'', ''shutil'', ''subprocess'', ''sys'', ''warnings'',
      ''tarfile'', ''warning_on_one_line'', ''warning'', ''_execute_command'',
      ''_determine_machine_from_repo'', ''_get_data_from_repo'', ''_get_shas_from_repo'',
      ''_get_version_from_repo'', ''_rev_parse_in_repo'', ''_get_date_from_repo'',
      ''_generate_metadata'', ''_generate_tarball'', ''_transfer_sha_between_repos'',
      ''_generate_static_delta_between_shas'', ''_str_to_resolved_path'',
      ''ensure_is_directory'', ''_parse_args'', ''main'']"

definition global_name :: "string \<Rightarrow> unit io" where
  "global_name n = (if n \<in> set module_names then return_io () else raise_io (NameError n))"

text \<open>\<open>subprocess.Popen(command, ...)\<close>: the tool answers with a process.\<close>

definition popen :: "env \<Rightarrow> string list \<Rightarrow> proc io" where
  "popen e command = (\<lambda>h. (Inr (tool e h command), [Exec command (tool e h command)]))"

text \<open>
  \<open>p.communicate(timeout)\<close>: the two outputs, or \<open>None\<close> for TimeoutExpired, raised
  when a timeout is given and the process runs longer.
\<close>

definition communicate :: "proc \<Rightarrow> nat option \<Rightarrow> (string \<times> string) option" where
  "communicate p timeout =
     (case timeout of
        None \<Rightarrow> Some (stdout p, stderr p)
      | Some t \<Rightarrow> if t < runtime p then None else Some (stdout p, stderr p))"

definition format_timeout :: "nat option \<Rightarrow> string" where
  "format_timeout timeout = (case timeout of None \<Rightarrow> ''None'' | Some t \<Rightarrow> str_nat t)"

text \<open>
  \<open>_execute_command\<close>. The handler of TimeoutExpired first evaluates the global name
  \<open>ExecuteHelper\<close>, then prints, kills the process and reads its output.
\<close>

definition execute_command :: "env \<Rightarrow> string list \<Rightarrow> nat option \<Rightarrow> string io" where
  "execute_command e command timeout =
     bind_io (emit (Print_list command)) (\<lambda>_.
     bind_io (popen e command) (\<lambda>p.
     bind_io
       (case communicate p timeout of
          Some (output, error) \<Rightarrow> return_io (output, error)
        | None \<Rightarrow>
            bind_io (global_name ''ExecuteHelper'') (\<lambda>_.
            bind_io (emit (Print (''Timed out after '' @ format_timeout timeout @ ''s''))) (\<lambda>_.
            bind_io (emit (Kill command)) (\<lambda>_.
            return_io (stdout p, stderr p)))))
       (\<lambda>(output, error).
     bind_io (emit (Print error)) (\<lambda>_.
     return_io output))))"

text \<open>
  The loop of \<open>_determine_machine_from_repo\<close>: \<open>for ref in output\<close> reads
  \<open>output[i]\<close> for \<open>i = 0, 1, ...\<close> while \<open>i < len(output)\<close>, and
  \<open>output.remove(ref)\<close> deletes the first element equal to \<open>ref\<close> from the list
  being read.
\<close>

function remove_ostree_refs :: "nat \<Rightarrow> string list \<Rightarrow> string list" where
  "remove_ostree_refs i output =
     (if i < length output then
        (if startswith (output ! i) ''ostree''
         then remove_ostree_refs (Suc i) (remove1 (output ! i) output)
         else remove_ostree_refs (Suc i) output)
      else output)"
  by pat_completeness auto
termination
  by (relation "measure (\<lambda>(i, output). length output - i)") (auto simp: length_remove1)

declare remove_ostree_refs.simps [simp del]

definition determine_machine_from_repo :: "env \<Rightarrow> string \<Rightarrow> string option io" where
  "determine_machine_from_repo e repo =
     bind_io (execute_command e [''ostree'', ''--repo='' @ repo, ''refs''] None) (\<lambda>out.
     let output = remove_ostree_refs 0 (splitlines (rstrip out))
     in if length output = 1 then return_io (Some (output ! 0))
        else
          bind_io (emit (Print (''Error:'' @ [CHR 0x09]
                                 @ ''Could not determine the machine name from the repo''))) (\<lambda>_.
          bind_io (emit (Print ([CHR 0x09] @ ''Possible values are:''))) (\<lambda>_.
          bind_io (print_each (map (\<lambda>ref. [CHR 0x09, CHR 0x09] @ ref) output)) (\<lambda>_.
          return_io None))))"

text \<open>The loop of \<open>_get_data_from_repo\<close> over the lines of the log.\<close>

fun collect_values :: "string \<Rightarrow> string list \<Rightarrow> string list \<Rightarrow> exn + string list" where
  "collect_values data [] values = Inr values"
| "collect_values data (line # rest) values =
     (if startswith line data then
        (if data = ''Date'' then
           (case index (split_once CHR '':'' line) 1 of
              Inl x \<Rightarrow> Inl x
            | Inr v \<Rightarrow> collect_values data rest (values @ [strip v]))
         else
           (case index (split_ws line) 1 of
              Inl x \<Rightarrow> Inl x
            | Inr v \<Rightarrow> collect_values data rest (values @ [v])))
      else collect_values data rest values)"

definition get_data_from_repo ::
  "env \<Rightarrow> string \<Rightarrow> string \<Rightarrow> string \<Rightarrow> string list option io" where
  "get_data_from_repo e repo machine data =
     bind_io (execute_command e [''ostree'', ''--repo='' @ repo, ''log'', machine] None) (\<lambda>out.
     case collect_values data (splitlines (rstrip out)) [] of
       Inl x \<Rightarrow> raise_io x
     | Inr values \<Rightarrow> if length values > 0 then return_io (Some values) else return_io None)"

definition get_shas_from_repo :: "env \<Rightarrow> string \<Rightarrow> string \<Rightarrow> string list option io" where
  "get_shas_from_repo e repo machine = get_data_from_repo e repo machine ''commit''"

definition get_version_from_repo :: "env \<Rightarrow> string \<Rightarrow> string \<Rightarrow> string list option io" where
  "get_version_from_repo e repo machine = get_data_from_repo e repo machine ''Version''"

definition get_date_from_repo :: "env \<Rightarrow> string \<Rightarrow> string \<Rightarrow> string list option io" where
  "get_date_from_repo e repo machine = get_data_from_repo e repo machine ''Date''"

definition rev_parse_in_repo :: "env \<Rightarrow> string \<Rightarrow> string option \<Rightarrow> string option io" where
  "rev_parse_in_repo e repo rev_expr =
     (case rev_expr of
        None \<Rightarrow> return_io None
      | Some r \<Rightarrow>
          bind_io (execute_command e [''ostree'', ''--repo='' @ repo, ''rev-parse'', r] None)
            (\<lambda>out.
          case index (splitlines (rstrip out)) 0 of
            Inr sha \<Rightarrow> return_io (Some sha)
          | Inl x \<Rightarrow> return_io None))"

text \<open>\<open>os.path.join(a, b)\<close> for two components.\<close>

definition os_path_join :: "string \<Rightarrow> string \<Rightarrow> string" where
  "os_path_join a b =
     (if startswith b ''/'' then b
      else if a = [] \<or> last a = CHR ''/'' then a @ b
      else a @ ''/'' @ b)"

text \<open>The text that \<open>_generate_metadata\<close> writes, in two \<open>write\<close> calls.\<close>

definition metadata_text :: "string \<Rightarrow> string \<Rightarrow> string" where
  "metadata_text from_sha to_sha =
     (''From-sha:'' @ from_sha @ [CHR 0x0A]) @ (''To-sha:'' @ to_sha @ [CHR 0x0A])"

definition generate_metadata :: "string \<Rightarrow> string \<Rightarrow> string \<Rightarrow> unit io" where
  "generate_metadata outputpath from_sha to_sha =
     emit (Write_file (os_path_join outputpath ''metadata'') (metadata_text from_sha to_sha))"

definition generate_tarball :: "env \<Rightarrow> string \<Rightarrow> unit io" where
  "generate_tarball e outputpath =
     bind_io (execute_command e
                [''tar'', ''-cf'', outputpath @ ''/data.tar'', ''--directory'', outputpath,
                 ''--exclude=./data.tar'', ''.''] None) (\<lambda>output.
     bind_io (emit (Print output)) (\<lambda>_.
     bind_io (execute_command e [''gzip'', ''--force'', outputpath @ ''/data.tar''] None)
       (\<lambda>output.
     emit (Print output))))"

definition transfer_sha_between_repos :: "env \<Rightarrow> string \<Rightarrow> string \<Rightarrow> string \<Rightarrow> unit io" where
  "transfer_sha_between_repos e source_repo dest_repo sha =
     bind_io (execute_command e
                [''ostree'', ''--repo='' @ dest_repo, ''pull-local'', source_repo, sha] None)
       (\<lambda>output.
     emit (Print output))"

definition static_delta_command ::
  "string \<Rightarrow> string \<Rightarrow> string \<Rightarrow> string option \<Rightarrow> string list" where
  "static_delta_command repo outputpath to_sha from_sha =
     [''ostree'', ''--repo='' @ repo, ''static-delta'', ''generate'',
      ''--max-chunk-size=2048'', ''--min-fallback-size=0'',
      ''--filename='' @ os_path_join outputpath ''superblock'', ''--to'', to_sha]
     @ (case from_sha of None \<Rightarrow> [''--empty''] | Some f \<Rightarrow> [''--from'', f])"

definition generate_static_delta_between_shas ::
  "env \<Rightarrow> string \<Rightarrow> string \<Rightarrow> string \<Rightarrow> string \<Rightarrow> string option \<Rightarrow> unit io" where
  "generate_static_delta_between_shas e repo outputpath machine to_sha from_sha =
     bind_io (case from_sha of
                None \<Rightarrow> generate_metadata outputpath machine to_sha
              | Some f \<Rightarrow> generate_metadata outputpath f to_sha) (\<lambda>_.
     bind_io (execute_command e (static_delta_command repo outputpath to_sha from_sha) None)
       (\<lambda>output.
     bind_io (emit (Print output)) (\<lambda>_.
     generate_tarball e outputpath)))"

definition ensure_is_directory :: "env \<Rightarrow> string \<Rightarrow> unit io" where
  "ensure_is_directory e path =
     (if \<not> path_exists e path
        then raise_io (ValueError ([CHR 0x22] @ path @ [CHR 0x22] @ '' does not exist''))
      else if \<not> path_is_dir e path
        then raise_io (ValueError ([CHR 0x22] @ path @ [CHR 0x22] @ '' is not a directory''))
      else return_io ())"

text \<open>
  The namespace that \<open>parse_known_args\<close> returns: \<open>None\<close> for an option that was not
  given. The parser itself is argparse; a run starts from its two results, the namespace
  and the list of the arguments it did not recognise.
\<close>

record args =
  arg_repo :: string
  arg_output :: string
  arg_update_repo :: "string option"
  arg_machine :: "string option"
  arg_to_sha :: "string option"
  arg_from_sha :: "string option"
  arg_generate_bin :: bool
  arg_empty :: bool

definition parse_args :: "env \<Rightarrow> args \<times> string list \<Rightarrow> args io" where
  "parse_args e parsed =
     (case parsed of (a, unknown) \<Rightarrow>
        bind_io (if length unknown > 0
                 then warning (''unsupported arguments: '' @ repr_list unknown)
                 else return_io ()) (\<lambda>_.
        bind_io (ensure_is_directory e (arg_repo a)) (\<lambda>_.
        return_io a)))"

text \<open>The choice of the "from" revision expression in \<open>main\<close>.\<close>

definition from_rev_of :: "args \<Rightarrow> string \<Rightarrow> string \<Rightarrow> string \<Rightarrow> string option" where
  "from_rev_of a repo update_repo machine =
     (if arg_empty a then None
      else (case arg_from_sha a of
              None \<Rightarrow> if repo = update_repo then Some (machine @ ''^'') else Some machine
            | Some f \<Rightarrow> Some f))"

definition main :: "env \<Rightarrow> args \<times> string list \<Rightarrow> unit io" where
  "main e parsed =
     bind_io (parse_args e parsed) (\<lambda>a.
     bind_io (emit (Makedirs (arg_output a))) (\<lambda>_.
     let repo = arg_repo a in
     bind_io (case arg_machine a of
                None \<Rightarrow> determine_machine_from_repo e repo
              | Some m \<Rightarrow> return_io (Some m)) (\<lambda>machine_opt.
     case machine_opt of
       None \<Rightarrow> raise_io (SystemExit 2)
     | Some machine \<Rightarrow>
     let update_repo = (case arg_update_repo a of None \<Rightarrow> repo | Some u \<Rightarrow> u);
         to_rev = (case arg_to_sha a of None \<Rightarrow> machine | Some t \<Rightarrow> t);
         from_rev = from_rev_of a repo update_repo machine
     in
     bind_io (rev_parse_in_repo e update_repo (Some to_rev)) (\<lambda>to_sha_opt.
     case to_sha_opt of
       None \<Rightarrow>
         bind_io (warning (''rev '' @ to_rev @ '' not found in '' @ update_repo)) (\<lambda>_.
         raise_io (SystemExit 1))
     | Some to_sha \<Rightarrow>
     bind_io (rev_parse_in_repo e repo from_rev) (\<lambda>from_sha.
     bind_io (case (from_sha, from_rev) of
                (None, Some r) \<Rightarrow>
                  bind_io (warning (''rev '' @ r @ '' not found in '' @ repo)) (\<lambda>_.
                  raise_io (SystemExit 1))
              | _ \<Rightarrow> return_io ()) (\<lambda>_.
     bind_io (if repo \<noteq> update_repo
              then transfer_sha_between_repos e update_repo repo to_sha
              else return_io ()) (\<lambda>_.
     bind_io (generate_static_delta_between_shas e repo (arg_output a) machine to_sha from_sha)
       (\<lambda>_.
     if arg_generate_bin a
     then bind_io (execute_command e
                     [''mv'', arg_output a @ ''/data.tar.gz'', arg_output a @ ''/data.bin'']
                     None) (\<lambda>output.
          emit (Print output))
     else return_io ()))))))))"

text \<open>
  \<open>sys.exit(main())\<close> as the script: the run starts with no command run before it. The
  exit status of the process is 0 when \<open>main\<close> returns (it returns \<open>None\<close>), the code
  of a SystemExit, and 1 for any other exception, which nothing catches.
\<close>

definition script :: "env \<Rightarrow> args \<times> string list \<Rightarrow> (exn + unit) \<times> event list" where
  "script e parsed = main e parsed []"

definition exit_status :: "(exn + unit) \<Rightarrow> int" where
  "exit_status r = (case r of Inr _ \<Rightarrow> 0 | Inl (SystemExit n) \<Rightarrow> n | Inl _ \<Rightarrow> 1)"

section \<open>The operating system may refuse\<close>

text \<open>
  Four calls of the script go to the operating system and can be refused with an OSError,
  which nothing in the script catches: the look at the \<open>--repo\<close> path by
  \<open>path.exists()\<close> and \<open>path.is_dir()\<close> (a directory above it may not be searched),
  \<open>os.makedirs\<close> (the output path is an existing file, or may not be written),
  \<open>subprocess.Popen\<close> (the tool is not installed, or may not be run) and opening and
  writing the metadata file. A refusal is given by the message of its error: for a path,
  for a directory, for a command after the commands run before it, for a file. Reading the
  output of a started subprocess, printing and warning are taken to succeed.
\<close>

record refusals =
  stat_error :: "string \<Rightarrow> string option"
  makedirs_error :: "string \<Rightarrow> string option"
  popen_error :: "string list list \<Rightarrow> string list \<Rightarrow> string option"
  open_error :: "string \<Rightarrow> string option"





definition popen_os :: "refusals \<Rightarrow> env \<Rightarrow> string list \<Rightarrow> proc io" where
  "popen_os os e command =
     (\<lambda>h. case popen_error os h command of
             Some msg \<Rightarrow> (Inl (OSError msg), [])
           | None \<Rightarrow> (Inr (tool e h command), [Exec command (tool e h command)]))"

definition execute_command_os ::
  "refusals \<Rightarrow> env \<Rightarrow> string list \<Rightarrow> nat option \<Rightarrow> string io" where
  "execute_command_os os e command timeout =
     bind_io (emit (Print_list command)) (\<lambda>_.
     bind_io (popen_os os e command) (\<lambda>p.
     bind_io
       (case communicate p timeout of
          Some (output, error) \<Rightarrow> return_io (output, error)
        | None \<Rightarrow>
            bind_io (global_name ''ExecuteHelper'') (\<lambda>_.
            bind_io (emit (Print (''Timed out after '' @ format_timeout timeout @ ''s''))) (\<lambda>_.
            bind_io (emit (Kill command)) (\<lambda>_.
            return_io (stdout p, stderr p)))))
       (\<lambda>(output, error).
     bind_io (emit (Print error)) (\<lambda>_.
     return_io output))))"


definition rev_parse_in_repo_os ::
  "refusals \<Rightarrow> env \<Rightarrow> string \<Rightarrow> string option \<Rightarrow> string option io" where
  "rev_parse_in_repo_os os e repo rev_expr =
     (case rev_expr of
        None \<Rightarrow> return_io None
      | Some r \<Rightarrow>
          bind_io (execute_command_os os e [''ostree'', ''--repo='' @ repo, ''rev-parse'', r] None)
            (\<lambda>out.
          case index (splitlines (rstrip out)) 0 of
            Inr sha \<Rightarrow> return_io (Some sha)
          | Inl x \<Rightarrow> return_io None))"







section \<open>Reading a run\<close>

text \<open>
  The values \<open>main\<close> computes on its way, named so that the theorems can speak of them.
  \<open>call_events\<close> are the events of one \<open>_execute_command\<close> without timeout, and
  \<open>call_print_events\<close> those of a call followed by \<open>print(output)\<close>.
\<close>

definition call_events :: "env \<Rightarrow> string list list \<Rightarrow> string list \<Rightarrow> event list" where
  "call_events e h c = [Print_list c, Exec c (tool e h c), Print (stderr (tool e h c))]"

definition call_print_events :: "env \<Rightarrow> string list list \<Rightarrow> string list \<Rightarrow> event list" where
  "call_print_events e h c = call_events e h c @ [Print (stdout (tool e h c))]"

abbreviation refs_command :: "string \<Rightarrow> string list" where
  "refs_command repo \<equiv> [''ostree'', ''--repo='' @ repo, ''refs'']"

abbreviation rev_parse_command :: "string \<Rightarrow> string \<Rightarrow> string list" where
  "rev_parse_command repo r \<equiv> [''ostree'', ''--repo='' @ repo, ''rev-parse'', r]"

abbreviation pull_local_command :: "string \<Rightarrow> string \<Rightarrow> string \<Rightarrow> string list" where
  "pull_local_command dest_repo source_repo sha \<equiv>
     [''ostree'', ''--repo='' @ dest_repo, ''pull-local'', source_repo, sha]"

abbreviation tar_command :: "string \<Rightarrow> string list" where
  "tar_command out \<equiv>
     [''tar'', ''-cf'', out @ ''/data.tar'', ''--directory'', out, ''--exclude=./data.tar'', ''.'']"

abbreviation gzip_command :: "string \<Rightarrow> string list" where
  "gzip_command out \<equiv> [''gzip'', ''--force'', out @ ''/data.tar'']"

abbreviation mv_command :: "string \<Rightarrow> string list" where
  "mv_command out \<equiv> [''mv'', out @ ''/data.tar.gz'', out @ ''/data.bin'']"

text \<open>An \<open>ostree\<close> command with the given subcommand after the repository option.\<close>

definition is_ostree :: "string \<Rightarrow> string list \<Rightarrow> bool" where
  "is_ostree sub c = (2 < length c \<and> c ! 0 = ''ostree'' \<and> c ! 2 = sub)"

definition is_rev_parse :: "string list \<Rightarrow> bool" where
  "is_rev_parse c = is_ostree ''rev-parse'' c"

definition is_pull_local :: "string list \<Rightarrow> bool" where
  "is_pull_local c = is_ostree ''pull-local'' c"

definition is_static_delta :: "string list \<Rightarrow> bool" where
  "is_static_delta c = is_ostree ''static-delta'' c"

text \<open>The lines a process wrote, as every caller reads them.\<close>

definition output_lines :: "proc \<Rightarrow> string list" where
  "output_lines p = splitlines (rstrip (stdout p))"

text \<open>The refs that are left when the loop of the detection is over.\<close>

definition remaining_refs :: "env \<Rightarrow> string \<Rightarrow> string list" where
  "remaining_refs e repo = remove_ostree_refs 0 (output_lines (tool e [] (refs_command repo)))"

text \<open>The machine \<open>main\<close> goes on with, if any, and the commands run to find it.\<close>

definition machine_of :: "env \<Rightarrow> args \<Rightarrow> string option" where
  "machine_of e a =
     (case arg_machine a of
        Some m \<Rightarrow> Some m
      | None \<Rightarrow> if length (remaining_refs e (arg_repo a)) = 1
                then Some (remaining_refs e (arg_repo a) ! 0) else None)"

definition detection_commands :: "args \<Rightarrow> string list list" where
  "detection_commands a =
     (case arg_machine a of Some m \<Rightarrow> [] | None \<Rightarrow> [refs_command (arg_repo a)])"

definition update_repo_of :: "args \<Rightarrow> string" where
  "update_repo_of a = (case arg_update_repo a of None \<Rightarrow> arg_repo a | Some u \<Rightarrow> u)"

definition to_rev_of :: "args \<Rightarrow> string \<Rightarrow> string" where
  "to_rev_of a machine = (case arg_to_sha a of None \<Rightarrow> machine | Some t \<Rightarrow> t)"

text \<open>The process that answers the rev-parse of the "to" expression, and of the "from"
  expression \<open>r\<close>.\<close>

definition to_proc :: "env \<Rightarrow> args \<Rightarrow> string \<Rightarrow> proc" where
  "to_proc e a machine =
     tool e (detection_commands a) (rev_parse_command (update_repo_of a) (to_rev_of a machine))"

definition from_proc :: "env \<Rightarrow> args \<Rightarrow> string \<Rightarrow> string \<Rightarrow> proc" where
  "from_proc e a machine r =
     tool e (detection_commands a
             @ [rev_parse_command (update_repo_of a) (to_rev_of a machine)])
       (rev_parse_command (arg_repo a) r)"

text \<open>The events of \<open>_parse_args\<close> and of a detection that finds the machine.\<close>

definition unknown_warning :: "string list \<Rightarrow> event list" where
  "unknown_warning u =
     (if length u > 0 then [Warn (''unsupported arguments: '' @ repr_list u)] else [])"

definition detection_events :: "env \<Rightarrow> args \<Rightarrow> event list" where
  "detection_events e a =
     (case arg_machine a of
        Some m \<Rightarrow> []
      | None \<Rightarrow> call_events e [] (refs_command (arg_repo a)))"

text \<open>
  The commands and the events of the last part of \<open>main\<close>, from the transfer on, when
  the commands \<open>h\<close> were run before it.
\<close>

definition delta_commands :: "args \<Rightarrow> string \<Rightarrow> string option \<Rightarrow> string list list" where
  "delta_commands a to_sha from_sha =
     (if arg_repo a \<noteq> update_repo_of a
      then [pull_local_command (arg_repo a) (update_repo_of a) to_sha] else [])
     @ [static_delta_command (arg_repo a) (arg_output a) to_sha from_sha,
        tar_command (arg_output a), gzip_command (arg_output a)]
     @ (if arg_generate_bin a then [mv_command (arg_output a)] else [])"

definition delta_events ::
  "env \<Rightarrow> args \<Rightarrow> string list list \<Rightarrow> string \<Rightarrow> string \<Rightarrow> string option \<Rightarrow> event list" where
  "delta_events e a h machine to_sha from_sha =
     (let pull = (if arg_repo a \<noteq> update_repo_of a
                  then [pull_local_command (arg_repo a) (update_repo_of a) to_sha] else []);
          sd = static_delta_command (arg_repo a) (arg_output a) to_sha from_sha;
          out = arg_output a
      in (if arg_repo a \<noteq> update_repo_of a
          then call_print_events e h (pull_local_command (arg_repo a) (update_repo_of a) to_sha)
          else [])
         @ [Write_file (os_path_join out ''metadata'')
              (metadata_text (case from_sha of None \<Rightarrow> machine | Some f \<Rightarrow> f) to_sha)]
         @ call_print_events e (h @ pull) sd
         @ call_print_events e (h @ pull @ [sd]) (tar_command out)
         @ call_print_events e (h @ pull @ [sd, tar_command out]) (gzip_command out)
         @ (if arg_generate_bin a
            then call_print_events e (h @ pull @ [sd, tar_command out, gzip_command out])
                   (mv_command out)
            else []))"

text \<open>
  What \<open>_get_data_from_repo\<close> reads: the lines of the log that start with the field
  name, whether such a line has a value to take (a second word, or for \<open>Date\<close> a
  colon), and the value taken.
\<close>

definition matching_lines :: "env \<Rightarrow> string list list \<Rightarrow> string \<Rightarrow> string \<Rightarrow> string \<Rightarrow> string list" where
  "matching_lines e h repo machine data =
     filter (\<lambda>line. startswith line data)
       (output_lines (tool e h [''ostree'', ''--repo='' @ repo, ''log'', machine]))"

definition has_value :: "string \<Rightarrow> string \<Rightarrow> bool" where
  "has_value data line =
     (if data = ''Date'' then CHR '':'' \<in> set line else 1 < length (split_ws line))"

definition value_of :: "string \<Rightarrow> string \<Rightarrow> string" where
  "value_of data line =
     (if data = ''Date'' then strip (split_once CHR '':'' line ! 1) else split_ws line ! 1)"

text \<open>
  Two things to look for in the events of a run: a rev-parse that printed no line, and a
  refs listing that did not leave exactly one ref.
\<close>

definition unresolved_event :: "event \<Rightarrow> bool" where
  "unresolved_event ev =
     (case ev of Exec c p \<Rightarrow> is_rev_parse c \<and> output_lines p = [] | _ \<Rightarrow> False)"

definition undetermined_event :: "string \<Rightarrow> event \<Rightarrow> bool" where
  "undetermined_event repo ev =
     (case ev of
        Exec c p \<Rightarrow> c = refs_command repo \<and> length (remove_ostree_refs 0 (output_lines p)) \<noteq> 1
      | _ \<Rightarrow> False)"



text \<open>
  An OSError with this message was raised by a refusal of the operating system; and an
  outcome that is a return or such an error, after commands none of which is a rev-parse
  or a refs listing.
\<close>

definition os_raised :: "refusals \<Rightarrow> args \<Rightarrow> string \<Rightarrow> bool" where
  "os_raised os a msg =
     (stat_error os (arg_repo a) = Some msg
      \<or> makedirs_error os (arg_output a) = Some msg
      \<or> open_error os (os_path_join (arg_output a) ''metadata'') = Some msg
      \<or> (\<exists>h c. popen_error os h c = Some msg))"

definition calm :: "refusals \<Rightarrow> args \<Rightarrow> (exn + 'a) \<times> event list \<Rightarrow> bool" where
  "calm os a out =
     ((case fst out of
         Inr v \<Rightarrow> True
       | Inl x \<Rightarrow> (\<exists>msg. x = OSError msg \<and> os_raised os a msg))
      \<and> (\<forall>c \<in> set (cmds_of (snd out)). \<not> is_rev_parse c \<and> \<not> is_ostree ''refs'' c))"

section \<open>Example environments\<close>

text \<open>
  An environment whose tools answer a command by \<open>answer\<close>, whatever ran before, take
  ten units of time, and in which every path is a directory or none exists.
\<close>

definition world :: "(string list \<Rightarrow> string) \<Rightarrow> bool \<Rightarrow> env" where
  "world answer present =
     \<lparr> tool = (\<lambda>h c. \<lparr>stdout = answer c, stderr = [], runtime = 10\<rparr>),
       path_exists = (\<lambda>p. present),
       path_is_dir = (\<lambda>p. present) \<rparr>"

text \<open>\<open>--repo /repo --output /out\<close> and nothing else.\<close>

definition plain_args :: args where
  "plain_args =
     \<lparr>arg_repo = ''/repo'', arg_output = ''/out'', arg_update_repo = None,
      arg_machine = None, arg_to_sha = None, arg_from_sha = None,
      arg_generate_bin = False, arg_empty = False\<rparr>"

text \<open>A repository of the given refs listing in which every revision resolves to
  \<open>abc123\<close>.\<close>

definition refs_answer :: "string \<Rightarrow> string list \<Rightarrow> string" where
  "refs_answer listing c =
     (if c = refs_command ''/repo'' then listing else ''abc123'' @ [CHR 0x0A])"

definition adjacent_listing :: string where
  "adjacent_listing =
     ''ostree/a'' @ [CHR 0x0A] @ ''ostree/b'' @ [CHR 0x0A] @ ''myboard'' @ [CHR 0x0A]"

definition ostree_only_listing :: string where
  "ostree_only_listing = ''ostree/a'' @ [CHR 0x0A] @ ''ostree/b'' @ [CHR 0x0A]"

text \<open>
  Further examples: a repository in which every command prints \<open>abc123\<close>, one in
  which every command prints nothing, one whose path does not exist, and the command lines
  \<open>--machine myboard\<close>, \<open>--machine myboard --from_sha def456 --empty\<close> and
  \<open>--machine myboard --update_repo /update\<close>, each with \<open>--repo /repo --output /out\<close>.
\<close>

definition steady :: env where
  "steady = world (\<lambda>c. ''abc123'' @ [CHR 0x0A]) True"

definition silent :: env where
  "silent = world (\<lambda>c. []) True"

definition board_args :: args where
  "board_args = plain_args\<lparr>arg_machine := Some ''myboard''\<rparr>"

definition empty_args :: args where
  "empty_args = plain_args\<lparr>arg_machine := Some ''myboard'', arg_from_sha := Some ''def456'',
                            arg_empty := True\<rparr>"


definition two_repo_args :: args where
  "two_repo_args = plain_args\<lparr>arg_machine := Some ''myboard'',
                               arg_update_repo := Some ''/update''\<rparr>"

text \<open>
  A machine name of two lines given with \<open>--to_sha abc123 --empty\<close>, and a log of two
  commits.
\<close>

definition newline_args :: args where
  "newline_args =
     plain_args\<lparr>arg_machine := Some (''my'' @ [CHR 0x0A] @ ''board''),
                 arg_to_sha := Some ''abc123'', arg_empty := True\<rparr>"

definition short_log :: string where
  "short_log = ''commit abc123'' @ [CHR 0x0A] @ ''Date:  2021-03-01 10:00'' @ [CHR 0x0A]
               @ [CHR 0x0A] @ ''    first'' @ [CHR 0x0A] @ ''commit def456'' @ [CHR 0x0A]"

text \<open>
  Repositories whose every command prints that log, or the single line \<open>commit\<close>, and
  a tool that prints \<open>partial output\<close> (each, as in every \<open>world\<close>, after ten units
  of time).
\<close>

definition two_commit_repo :: env where
  "two_commit_repo = world (\<lambda>c. short_log) True"

definition bare_commit_repo :: env where
  "bare_commit_repo = world (\<lambda>c. ''commit'' @ [CHR 0x0A]) True"

definition slow_tool :: env where
  "slow_tool = world (\<lambda>c. ''partial output'') True"



section \<open>The computations in closed form\<close>

lemma return_io_apply [simp]: "return_io v h = (Inr v, [])"
  by (simp add: return_io_def)

lemma raise_io_apply [simp]: "raise_io x h = (Inl x, [])"
  by (simp add: raise_io_def)

lemma emit_apply [simp]: "emit ev h = (Inr (), [ev])"
  by (simp add: emit_def)

lemma bind_io_pair:
  "m h = (Inr v, evs) \<Longrightarrow>
   bind_io m f h = (fst (f v (h @ cmds_of evs)), evs @ snd (f v (h @ cmds_of evs)))"
  by (simp add: bind_io_def split: prod.splits)

lemma bind_io_popen [simp]:
  "bind_io (popen e c) f h =
     (fst (f (tool e h c) (h @ [c])), Exec c (tool e h c) # snd (f (tool e h c) (h @ [c])))"
  by (simp add: bind_io_def popen_def split: prod.splits)

lemma bind_io_return [simp]: "bind_io (return_io v) f h = f v h"
  by (simp add: bind_io_def return_io_def)

lemma bind_io_raise [simp]: "bind_io (raise_io x) f h = (Inl x, [])"
  by (simp add: bind_io_def raise_io_def)

lemma bind_io_emit [simp]:
  "bind_io (emit ev) f h = (fst (f () (h @ cmds_of [ev])), ev # snd (f () (h @ cmds_of [ev])))"
  by (simp add: bind_io_def emit_def split: prod.splits)

lemma cmds_of_append [simp]: "cmds_of (xs @ ys) = cmds_of xs @ cmds_of ys"
  by (induction xs rule: cmds_of.induct) simp_all

lemma cmds_of_call_events [simp]: "cmds_of (call_events e h c) = [c]"
  by (simp add: call_events_def)

lemma cmds_of_call_print_events [simp]: "cmds_of (call_print_events e h c) = [c]"
  by (simp add: call_print_events_def)

lemma cmds_of_unknown_warning [simp]: "cmds_of (unknown_warning u) = []"
  by (simp add: unknown_warning_def)

lemma cmds_of_detection_events [simp]: "cmds_of (detection_events e a) = detection_commands a"
  by (simp add: detection_events_def detection_commands_def split: option.splits)

lemma cmds_of_delta_events [simp]: "cmds_of (delta_events e a h m t f) = delta_commands a t f"
  by (simp add: delta_events_def delta_commands_def Let_def)

lemma execute_command_None:
  "execute_command e c None h = (Inr (stdout (tool e h c)), call_events e h c)"
  by (simp add: execute_command_def communicate_def call_events_def)

lemma bind_io_execute [simp]:
  "bind_io (execute_command e c None) f h =
     (fst (f (stdout (tool e h c)) (h @ [c])),
      call_events e h c @ snd (f (stdout (tool e h c)) (h @ [c])))"
  by (simp add: bind_io_pair [OF execute_command_None])

lemma print_each_eq: "print_each xs h = (Inr (), map Print xs)"
  by (induction xs arbitrary: h) simp_all

lemma determine_machine_eq:
  "determine_machine_from_repo e repo [] =
     (Inr (if length (remaining_refs e repo) = 1 then Some (remaining_refs e repo ! 0) else None),
      call_events e [] (refs_command repo)
      @ (if length (remaining_refs e repo) = 1 then []
         else [Print (''Error:'' @ [CHR 0x09]
                       @ ''Could not determine the machine name from the repo''),
               Print ([CHR 0x09] @ ''Possible values are:'')]
              @ map (\<lambda>ref. Print ([CHR 0x09, CHR 0x09] @ ref)) (remaining_refs e repo)))"
  by (simp add: determine_machine_from_repo_def remaining_refs_def output_lines_def Let_def
      bind_io_pair [OF print_each_eq] comp_def)

lemma rev_parse_None [simp]: "rev_parse_in_repo e repo None = return_io None"
  by (simp add: rev_parse_in_repo_def)

lemma rev_parse_Some:
  "rev_parse_in_repo e repo (Some r) h =
     (Inr (case output_lines (tool e h (rev_parse_command repo r)) of
             [] \<Rightarrow> None | sha # _ \<Rightarrow> Some sha),
      call_events e h (rev_parse_command repo r))"
  by (simp add: rev_parse_in_repo_def index_def output_lines_def split: list.splits)

lemma transfer_eq:
  "transfer_sha_between_repos e src dst sha h =
     (Inr (), call_print_events e h (pull_local_command dst src sha))"
  by (simp add: transfer_sha_between_repos_def call_print_events_def)

lemma generate_tarball_eq:
  "generate_tarball e out h =
     (Inr (),
      call_print_events e h (tar_command out)
      @ call_print_events e (h @ [tar_command out]) (gzip_command out))"
  by (simp add: generate_tarball_def call_print_events_def)

lemma generate_static_delta_eq:
  "generate_static_delta_between_shas e repo out machine to_sha from_sha h =
     (Inr (),
      [Write_file (os_path_join out ''metadata'')
         (metadata_text (case from_sha of None \<Rightarrow> machine | Some f \<Rightarrow> f) to_sha)]
      @ call_print_events e h (static_delta_command repo out to_sha from_sha)
      @ snd (generate_tarball e out (h @ [static_delta_command repo out to_sha from_sha])))"
  by (cases from_sha)
     (simp_all add: generate_static_delta_between_shas_def generate_metadata_def
        call_print_events_def generate_tarball_eq)

lemma parse_args_eq:
  "parse_args e (a, u) h =
     (if \<not> path_exists e (arg_repo a)
        then Inl (ValueError ([CHR 0x22] @ arg_repo a @ [CHR 0x22] @ '' does not exist''))
      else if \<not> path_is_dir e (arg_repo a)
        then Inl (ValueError ([CHR 0x22] @ arg_repo a @ [CHR 0x22] @ '' is not a directory''))
      else Inr a,
      unknown_warning u)"
  by (simp add: parse_args_def ensure_is_directory_def warning_def unknown_warning_def
      bind_io_def)

lemma machine_of_cases:
  assumes "machine_of e a = Some m"
  obtains (given) "arg_machine a = Some m"
  | (detected) "arg_machine a = None" "length (remaining_refs e (arg_repo a)) = 1"
      "remaining_refs e (arg_repo a) ! 0 = m"
  using assms by (auto simp: machine_of_def split: option.splits if_splits)

lemmas run_simps = script_def main_def bind_io_def parse_args_eq
      determine_machine_eq rev_parse_Some to_proc_def from_proc_def detection_commands_def
      detection_events_def warning_def Let_def update_repo_of_def [symmetric]
      to_rev_of_def [symmetric] execute_command_None
      transfer_eq generate_static_delta_eq generate_tarball_eq delta_events_def
      call_print_events_def

section \<open>The five ways a run ends\<close>

lemma script_bad_dir:
  assumes "\<not> (path_exists e (arg_repo a) \<and> path_is_dir e (arg_repo a))"
  shows "\<exists>x. script e (a, u) = (Inl (ValueError x), unknown_warning u)"
  using assms by (auto simp add: script_def main_def bind_io_def parse_args_eq)

lemma script_no_machine:
  assumes "path_exists e (arg_repo a)" "path_is_dir e (arg_repo a)"
    and "machine_of e a = None"
  shows "script e (a, u) =
           (Inl (SystemExit 2),
            unknown_warning u @ [Makedirs (arg_output a)]
            @ snd (determine_machine_from_repo e (arg_repo a) []))"
proof -
  from assms(3) have "arg_machine a = None" "length (remaining_refs e (arg_repo a)) \<noteq> 1"
    by (auto simp: machine_of_def split: option.splits if_splits)
  with assms(1,2) show ?thesis
    by (simp add: script_def main_def bind_io_def parse_args_eq determine_machine_eq Let_def)
qed

lemma script_to_unresolved:
  assumes "path_exists e (arg_repo a)" "path_is_dir e (arg_repo a)"
    and "machine_of e a = Some m"
    and "output_lines (to_proc e a m) = []"
  shows "script e (a, u) =
           (Inl (SystemExit 1),
            unknown_warning u @ [Makedirs (arg_output a)] @ detection_events e a
            @ call_events e (detection_commands a)
                (rev_parse_command (update_repo_of a) (to_rev_of a m))
            @ [Warn (''rev '' @ to_rev_of a m @ '' not found in '' @ update_repo_of a)])"
  using assms(3)
proof (cases rule: machine_of_cases)
  case given
  with assms(1,2,4) show ?thesis by (simp add: run_simps)
next
  case detected
  with assms(1,2,4) show ?thesis by (simp add: run_simps)
qed

lemma script_from_unresolved:
  assumes "path_exists e (arg_repo a)" "path_is_dir e (arg_repo a)"
    and "machine_of e a = Some m"
    and "output_lines (to_proc e a m) = to_sha # rest"
    and "from_rev_of a (arg_repo a) (update_repo_of a) m = Some r"
    and "output_lines (from_proc e a m r) = []"
  shows "script e (a, u) =
           (Inl (SystemExit 1),
            unknown_warning u @ [Makedirs (arg_output a)] @ detection_events e a
            @ call_events e (detection_commands a)
                (rev_parse_command (update_repo_of a) (to_rev_of a m))
            @ call_events e
                (detection_commands a
                 @ [rev_parse_command (update_repo_of a) (to_rev_of a m)])
                (rev_parse_command (arg_repo a) r)
            @ [Warn (''rev '' @ r @ '' not found in '' @ arg_repo a)])"
  using assms(3)
proof (cases rule: machine_of_cases)
  case given
  with assms(1,2,4,5,6) show ?thesis by (simp add: run_simps)
next
  case detected
  with assms(1,2,4,5,6) show ?thesis by (simp add: run_simps)
qed

lemma script_success_from:
  assumes "path_exists e (arg_repo a)" "path_is_dir e (arg_repo a)"
    and "machine_of e a = Some m"
    and "output_lines (to_proc e a m) = to_sha # rest"
    and "from_rev_of a (arg_repo a) (update_repo_of a) m = Some r"
    and "output_lines (from_proc e a m r) = from_sha # rest'"
  shows "script e (a, u) =
           (Inr (),
            unknown_warning u @ [Makedirs (arg_output a)] @ detection_events e a
            @ call_events e (detection_commands a)
                (rev_parse_command (update_repo_of a) (to_rev_of a m))
            @ call_events e
                (detection_commands a
                 @ [rev_parse_command (update_repo_of a) (to_rev_of a m)])
                (rev_parse_command (arg_repo a) r)
            @ delta_events e a
                (detection_commands a
                 @ [rev_parse_command (update_repo_of a) (to_rev_of a m),
                    rev_parse_command (arg_repo a) r])
                m to_sha (Some from_sha))"
  using assms(3)
proof (cases rule: machine_of_cases)
  case given
  with assms(1,2,4,5,6) show ?thesis
    by (cases "arg_generate_bin a"; cases "arg_repo a = update_repo_of a")
       (simp_all add: run_simps)
next
  case detected
  with assms(1,2,4,5,6) show ?thesis
    by (cases "arg_generate_bin a"; cases "arg_repo a = update_repo_of a")
       (simp_all add: run_simps)
qed

lemma script_success_empty:
  assumes "path_exists e (arg_repo a)" "path_is_dir e (arg_repo a)"
    and "machine_of e a = Some m"
    and "output_lines (to_proc e a m) = to_sha # rest"
    and "from_rev_of a (arg_repo a) (update_repo_of a) m = None"
  shows "script e (a, u) =
           (Inr (),
            unknown_warning u @ [Makedirs (arg_output a)] @ detection_events e a
            @ call_events e (detection_commands a)
                (rev_parse_command (update_repo_of a) (to_rev_of a m))
            @ delta_events e a
                (detection_commands a
                 @ [rev_parse_command (update_repo_of a) (to_rev_of a m)])
                m to_sha None)"
  using assms(3)
proof (cases rule: machine_of_cases)
  case given
  with assms(1,2,4,5) show ?thesis
    by (cases "arg_generate_bin a"; cases "arg_repo a = update_repo_of a")
       (simp_all add: run_simps)
next
  case detected
  with assms(1,2,4,5) show ?thesis
    by (cases "arg_generate_bin a"; cases "arg_repo a = update_repo_of a")
       (simp_all add: run_simps)
qed

lemma script_cases [case_names bad_dir no_machine to_unresolved from_unresolved success_from success_empty]:
  obtains
    x where "\<not> (path_exists e (arg_repo a) \<and> path_is_dir e (arg_repo a))"
      "\<forall>u. script e (a, u) = (Inl (ValueError x), unknown_warning u)"
  | "path_exists e (arg_repo a)" "path_is_dir e (arg_repo a)" "machine_of e a = None"
      "\<forall>u. script e (a, u) =
           (Inl (SystemExit 2),
            unknown_warning u @ [Makedirs (arg_output a)]
            @ snd (determine_machine_from_repo e (arg_repo a) []))"
  | m where "path_exists e (arg_repo a)" "path_is_dir e (arg_repo a)"
      "machine_of e a = Some m" "output_lines (to_proc e a m) = []"
      "\<forall>u. script e (a, u) =
           (Inl (SystemExit 1),
            unknown_warning u @ [Makedirs (arg_output a)] @ detection_events e a
            @ call_events e (detection_commands a)
                (rev_parse_command (update_repo_of a) (to_rev_of a m))
            @ [Warn (''rev '' @ to_rev_of a m @ '' not found in '' @ update_repo_of a)])"
  | m to_sha rest r where "path_exists e (arg_repo a)" "path_is_dir e (arg_repo a)"
      "machine_of e a = Some m" "output_lines (to_proc e a m) = to_sha # rest"
      "from_rev_of a (arg_repo a) (update_repo_of a) m = Some r"
      "output_lines (from_proc e a m r) = []"
      "\<forall>u. script e (a, u) =
           (Inl (SystemExit 1),
            unknown_warning u @ [Makedirs (arg_output a)] @ detection_events e a
            @ call_events e (detection_commands a)
                (rev_parse_command (update_repo_of a) (to_rev_of a m))
            @ call_events e
                (detection_commands a
                 @ [rev_parse_command (update_repo_of a) (to_rev_of a m)])
                (rev_parse_command (arg_repo a) r)
            @ [Warn (''rev '' @ r @ '' not found in '' @ arg_repo a)])"
  | m to_sha rest r from_sha rest' where
      "path_exists e (arg_repo a)" "path_is_dir e (arg_repo a)"
      "machine_of e a = Some m" "output_lines (to_proc e a m) = to_sha # rest"
      "from_rev_of a (arg_repo a) (update_repo_of a) m = Some r"
      "output_lines (from_proc e a m r) = from_sha # rest'"
      "\<forall>u. script e (a, u) =
           (Inr (),
            unknown_warning u @ [Makedirs (arg_output a)] @ detection_events e a
            @ call_events e (detection_commands a)
                (rev_parse_command (update_repo_of a) (to_rev_of a m))
            @ call_events e
                (detection_commands a
                 @ [rev_parse_command (update_repo_of a) (to_rev_of a m)])
                (rev_parse_command (arg_repo a) r)
            @ delta_events e a
                (detection_commands a
                 @ [rev_parse_command (update_repo_of a) (to_rev_of a m),
                    rev_parse_command (arg_repo a) r])
                m to_sha (Some from_sha))"
  | m to_sha rest where "path_exists e (arg_repo a)" "path_is_dir e (arg_repo a)"
      "machine_of e a = Some m" "output_lines (to_proc e a m) = to_sha # rest"
      "from_rev_of a (arg_repo a) (update_repo_of a) m = None"
      "\<forall>u. script e (a, u) =
           (Inr (),
            unknown_warning u @ [Makedirs (arg_output a)] @ detection_events e a
            @ call_events e (detection_commands a)
                (rev_parse_command (update_repo_of a) (to_rev_of a m))
            @ delta_events e a
                (detection_commands a
                 @ [rev_parse_command (update_repo_of a) (to_rev_of a m)])
                m to_sha None)"
proof (cases "path_exists e (arg_repo a) \<and> path_is_dir e (arg_repo a)")
  case False
  have "\<exists>x. \<forall>u. script e (a, u) = (Inl (ValueError x), unknown_warning u)"
    using False by (auto simp add: script_def main_def bind_io_def parse_args_eq)
  with False that(1) show ?thesis by blast
next
  case True
  then have ok: "path_exists e (arg_repo a)" "path_is_dir e (arg_repo a)" by simp_all
  show ?thesis
  proof (cases "machine_of e a")
    case None
    show ?thesis using that(2) [OF ok None] script_no_machine [OF ok None] by blast
  next
    case (Some m)
    show ?thesis
    proof (cases "output_lines (to_proc e a m)")
      case Nil
      show ?thesis using that(3) [OF ok Some Nil] script_to_unresolved [OF ok Some Nil] by blast
    next
      case (Cons to_sha rest)
      note to = Cons
      show ?thesis
      proof (cases "from_rev_of a (arg_repo a) (update_repo_of a) m")
        case None
        show ?thesis
          using that(6) [OF ok Some to None] script_success_empty [OF ok Some to None] by blast
      next
        case (Some r)
        note r = Some
        show ?thesis
        proof (cases "output_lines (from_proc e a m r)")
          case Nil
          show ?thesis
            using that(4) [OF ok \<open>machine_of e a = Some m\<close> to r Nil]
              script_from_unresolved [OF ok \<open>machine_of e a = Some m\<close> to r Nil] by blast
        next
          case (Cons from_sha rest')
          show ?thesis
            using that(5) [OF ok \<open>machine_of e a = Some m\<close> to r Cons]
              script_success_from [OF ok \<open>machine_of e a = Some m\<close> to r Cons] by blast
        qed
      qed
    qed
  qed
qed

section \<open>Commands and events of a run\<close>

lemma is_ostree_shapes [simp]:
  "is_ostree sub [''ostree'', x, y] = (y = sub)"
  "is_ostree sub [''ostree'', x, y, z] = (y = sub)"
  "is_ostree sub [''ostree'', x, y, z, w] = (y = sub)"
  "is_ostree sub (static_delta_command R out t f) = (sub = ''static-delta'')"
  "\<not> is_ostree sub (''tar'' # xs)"
  "\<not> is_ostree sub (''gzip'' # xs)"
  "\<not> is_ostree sub (''mv'' # xs)"
  by (auto simp add: is_ostree_def static_delta_command_def)

lemma filter_detection_commands [simp]:
  "filter is_rev_parse (detection_commands a) = []"
  "filter is_pull_local (detection_commands a) = []"
  "filter is_static_delta (detection_commands a) = []"
  by (simp_all add: detection_commands_def is_rev_parse_def is_pull_local_def
      is_static_delta_def split: option.splits)

lemma filter_delta_commands [simp]:
  "filter is_rev_parse (delta_commands a t f) = []"
  "filter is_pull_local (delta_commands a t f) =
     (if arg_repo a \<noteq> update_repo_of a
      then [pull_local_command (arg_repo a) (update_repo_of a) t] else [])"
  "filter is_static_delta (delta_commands a t f) =
     [static_delta_command (arg_repo a) (arg_output a) t f]"
  by (simp_all add: delta_commands_def is_rev_parse_def is_pull_local_def is_static_delta_def)

lemma cmds_of_map_Print [simp]: "cmds_of (map (\<lambda>x. Print (f x)) xs) = []"
  by (induction xs) simp_all

lemma cmds_of_determine [simp]:
  "cmds_of (snd (determine_machine_from_repo e repo [])) = [refs_command repo]"
  by (simp add: determine_machine_eq)

lemma is_rev_parse_rev_parse [simp]: "is_rev_parse [''ostree'', x, ''rev-parse'', r]"
  by (simp add: is_rev_parse_def)

lemma Exec_in_cmds: "Exec c p \<in> set evs \<Longrightarrow> c \<in> set (cmds_of evs)"
  by (induction evs rule: cmds_of.induct) auto

lemma Exec_call_events [simp]:
  "Exec c p \<in> set (call_events e h c') \<longleftrightarrow> c = c' \<and> p = tool e h c'"
  by (auto simp: call_events_def)

lemma Exec_unknown_warning [simp]: "Exec c p \<notin> set (unknown_warning u)"
  by (simp add: unknown_warning_def)

lemma Exec_detection_not_rev_parse:
  "Exec c p \<in> set (detection_events e a) \<Longrightarrow> \<not> is_rev_parse c"
  by (auto simp: detection_events_def is_rev_parse_def split: option.splits)

lemma Exec_determine_not_rev_parse:
  "Exec c p \<in> set (snd (determine_machine_from_repo e repo [])) \<Longrightarrow> \<not> is_rev_parse c"
  by (auto dest!: Exec_in_cmds simp: is_rev_parse_def)

lemma Exec_delta_not_rev_parse:
  "Exec c p \<in> set (delta_events e a h m t f) \<Longrightarrow> \<not> is_rev_parse c"
proof -
  assume "Exec c p \<in> set (delta_events e a h m t f)"
  then have "c \<in> set (delta_commands a t f)"
    by (auto dest!: Exec_in_cmds)
  moreover have "\<forall>x \<in> set (delta_commands a t f). \<not> is_rev_parse x"
    using filter_delta_commands(1) [of a t f] unfolding filter_empty_conv by blast
  ultimately show ?thesis by blast
qed

lemma Warn_unknown_warning:
  "u \<noteq> [] \<Longrightarrow> unknown_warning u = [Warn (''unsupported arguments: '' @ repr_list u)]"
  by (simp add: unknown_warning_def)

lemma filter_pull_or_delta [simp]:
  "filter (\<lambda>c. is_pull_local c \<or> is_static_delta c) (detection_commands a) = []"
  "filter (\<lambda>c. is_pull_local c \<or> is_static_delta c) (delta_commands a t f) =
     (if arg_repo a \<noteq> update_repo_of a
      then [pull_local_command (arg_repo a) (update_repo_of a) t] else [])
     @ [static_delta_command (arg_repo a) (arg_output a) t f]"
  by (simp_all add: detection_commands_def delta_commands_def is_pull_local_def
      is_static_delta_def split: option.splits)

lemma not_pull_or_delta [simp]:
  "\<not> is_pull_local [''ostree'', x, ''rev-parse'', r]"
  "\<not> is_static_delta [''ostree'', x, ''rev-parse'', r]"
  "\<not> is_pull_local [''ostree'', x, ''refs'']"
  "\<not> is_static_delta [''ostree'', x, ''refs'']"
  by (simp_all add: is_pull_local_def is_static_delta_def)

lemma in_detection_commands:
  "c \<in> set (detection_commands a) \<Longrightarrow>
     \<not> is_rev_parse c \<and> \<not> is_static_delta c \<and> \<not> is_pull_local c"
  by (auto simp: detection_commands_def is_rev_parse_def is_static_delta_def is_pull_local_def
      split: option.splits)

lemma in_delta_commands:
  "c \<in> set (delta_commands a t f) \<Longrightarrow>
     \<not> is_rev_parse c
     \<and> (is_static_delta c \<longrightarrow> c = static_delta_command (arg_repo a) (arg_output a) t f)"
  by (auto simp: delta_commands_def is_rev_parse_def is_static_delta_def split: if_splits)

lemma world_simps [simp]:
  "tool (world answer present) h c = \<lparr>stdout = answer c, stderr = [], runtime = 10\<rparr>"
  "path_exists (world answer present) p = present"
  "path_is_dir (world answer present) p = present"
  by (simp_all add: world_def)

lemma output_lines_abc123 [simp]:
  "output_lines \<lparr>stdout = [CHR ''a'', CHR ''b'', CHR ''c'', CHR ''1'', CHR ''2'', CHR ''3'',
                            CHR 0x0A], stderr = err, runtime = n\<rparr> = [''abc123'']"
  by (simp add: output_lines_def rstrip_def isspace_def islinebreak_def)

lemma output_lines_nothing [simp]:
  "output_lines \<lparr>stdout = [], stderr = err, runtime = n\<rparr> = []"
  by (simp add: output_lines_def rstrip_def)

lemma board_args_simps [simp]:
  "arg_repo board_args = ''/repo''" "arg_output board_args = ''/out''"
  "arg_update_repo board_args = None" "arg_machine board_args = Some ''myboard''"
  "arg_to_sha board_args = None" "arg_from_sha board_args = None"
  "\<not> arg_generate_bin board_args" "\<not> arg_empty board_args"
  by (simp_all add: board_args_def plain_args_def)

lemma empty_args_simps [simp]:
  "arg_repo empty_args = ''/repo''" "arg_output empty_args = ''/out''"
  "arg_update_repo empty_args = None" "arg_machine empty_args = Some ''myboard''"
  "arg_to_sha empty_args = None" "arg_from_sha empty_args = Some ''def456''"
  "\<not> arg_generate_bin empty_args" "arg_empty empty_args"
  by (simp_all add: empty_args_def plain_args_def)

lemma two_repo_args_simps [simp]:
  "arg_repo two_repo_args = ''/repo''" "arg_output two_repo_args = ''/out''"
  "arg_update_repo two_repo_args = Some ''/update''" "arg_machine two_repo_args = Some ''myboard''"
  "arg_to_sha two_repo_args = None" "arg_from_sha two_repo_args = None"
  "\<not> arg_generate_bin two_repo_args" "\<not> arg_empty two_repo_args"
  by (simp_all add: two_repo_args_def plain_args_def)

section \<open>Machine detection\<close>

lemma lines_adjacent:
  "splitlines (rstrip adjacent_listing) = [''ostree/a'', ''ostree/b'', ''myboard'']"
  by (simp add: adjacent_listing_def rstrip_def isspace_def islinebreak_def)

lemma lines_ostree_only:
  "splitlines (rstrip ostree_only_listing) = [''ostree/a'', ''ostree/b'']"
  by (simp add: ostree_only_listing_def rstrip_def isspace_def islinebreak_def)

lemma loop_adjacent:
  "remove_ostree_refs 0 [''ostree/a'', ''ostree/b'', ''myboard''] = [''ostree/b'', ''myboard'']"
  by (simp add: remove_ostree_refs.simps startswith_def)

lemma loop_ostree_only:
  "remove_ostree_refs 0 [''ostree/a'', ''ostree/b''] = [''ostree/b'']"
  by (simp add: remove_ostree_refs.simps startswith_def)

lemma remaining_adjacent:
  "remaining_refs (world (refs_answer adjacent_listing) True) ''/repo''
     = [''ostree/b'', ''myboard'']"
  by (simp add: remaining_refs_def output_lines_def world_def refs_answer_def lines_adjacent
      loop_adjacent)

lemma remaining_ostree_only:
  "remaining_refs (world (refs_answer ostree_only_listing) True) ''/repo'' = [''ostree/b'']"
  by (simp add: remaining_refs_def output_lines_def world_def refs_answer_def lines_ostree_only
      loop_ostree_only)

text \<open>
  Claim C1. A listing with exactly one ref that does not start with \<open>ostree\<close> should give
  that ref, and any other listing no machine and exit status 2. The loop deletes from the
  list it is reading, so the ref that follows a deleted one is never looked at. On the
  listing \<open>ostree/a, ostree/b, myboard\<close> the ref \<open>ostree/b\<close> stays, two refs are left,
  the detection returns nothing and the script exits with status 2 although \<open>myboard\<close>
  is the only candidate. On the listing \<open>ostree/a, ostree/b\<close>, which has no candidate,
  the detection returns \<open>ostree/b\<close> as the machine.
\<close>

theorem determine_machine_skips_ref_after_removed_one:
  "fst (determine_machine_from_repo (world (refs_answer adjacent_listing) True) ''/repo'' [])
     = Inr None
   \<and> exit_status (fst (script (world (refs_answer adjacent_listing) True) (plain_args, []))) = 2
   \<and> fst (determine_machine_from_repo (world (refs_answer ostree_only_listing) True) ''/repo'' [])
     = Inr (Some ''ostree/b'')"
proof -
  have m: "machine_of (world (refs_answer adjacent_listing) True) plain_args = None"
    by (simp add: machine_of_def plain_args_def remaining_adjacent)
  have "exit_status (fst (script (world (refs_answer adjacent_listing) True) (plain_args, []))) = 2"
    by (subst script_no_machine [OF _ _ m]) (simp_all add: world_def exit_status_def)
  then show ?thesis
    by (simp add: determine_machine_eq remaining_adjacent remaining_ostree_only)
qed


section \<open>Timeouts\<close>

text \<open>
  Claim C2. When a subprocess outlives the timeout it should be killed, its output read and
  returned. The handler starts by evaluating \<open>ExecuteHelper\<close>, a name the module never
  binds: a process that takes 10 time units under a timeout of 5 makes
  \<open>_execute_command\<close> raise NameError. Nothing is killed and no output is returned.
\<close>

theorem execute_command_timeout_raises_NameError:
  "execute_command slow_tool [''sleep'', ''60''] (Some 5) []
     = (Inl (NameError ''ExecuteHelper''),
        [Print_list [''sleep'', ''60''],
         Exec [''sleep'', ''60'']
           \<lparr>stdout = ''partial output'', stderr = [], runtime = 10\<rparr>])"
  by (simp add: execute_command_def communicate_def global_name_def module_names_def world_def
      slow_tool_def bind_io_def popen_def)

section \<open>The "from" revision\<close>

text \<open>
  Claim C3. With \<open>--from_sha\<close> and \<open>--empty\<close> both unset, the "from" revision
  expression is the machine name followed by \<open>^\<close> when the update repository is the
  source repository (also when \<open>--update_repo\<close> is omitted), and the bare machine name
  when the two differ. This holds of the value \<open>main\<close> computes, and of the run: once
  the machine is known and the "to" revision has resolved, the second rev-parse of the run is
  that of this expression in the source repository.
\<close>

theorem default_from_revision:
  assumes "arg_from_sha a = None" and "\<not> arg_empty a"
  shows "from_rev_of a (arg_repo a) (update_repo_of a) m
           = Some (if arg_update_repo a = None \<or> arg_update_repo a = Some (arg_repo a)
                   then m @ ''^'' else m)
         \<and> (path_exists e (arg_repo a) \<and> path_is_dir e (arg_repo a)
            \<and> machine_of e a = Some m \<and> output_lines (to_proc e a m) \<noteq> []
            \<longrightarrow> filter is_rev_parse (cmds_of (snd (script e (a, u))))
                  = [rev_parse_command (update_repo_of a) (to_rev_of a m),
                     rev_parse_command (arg_repo a)
                       (if arg_update_repo a = None \<or> arg_update_repo a = Some (arg_repo a)
                        then m @ ''^'' else m)])"
proof -
  let ?r = "if arg_update_repo a = None \<or> arg_update_repo a = Some (arg_repo a)
            then m @ ''^'' else m"
  have r: "from_rev_of a (arg_repo a) (update_repo_of a) m = Some ?r"
    using assms by (auto simp: from_rev_of_def update_repo_of_def split: option.splits)
  have "filter is_rev_parse (cmds_of (snd (script e (a, u))))
          = [rev_parse_command (update_repo_of a) (to_rev_of a m),
             rev_parse_command (arg_repo a) ?r]"
    if ok: "path_exists e (arg_repo a)" "path_is_dir e (arg_repo a)"
      and m: "machine_of e a = Some m" and to: "output_lines (to_proc e a m) \<noteq> []"
  proof -
    from to obtain to_sha rest where to': "output_lines (to_proc e a m) = to_sha # rest"
      by (cases "output_lines (to_proc e a m)") auto
    show ?thesis
    proof (cases "output_lines (from_proc e a m ?r)")
      case Nil
      show ?thesis
        by (simp add: script_from_unresolved [OF ok m to' r Nil])
    next
      case (Cons from_sha rest')
      show ?thesis
        by (simp add: script_success_from [OF ok m to' r Cons])
    qed
  qed
  with r show ?thesis by blast
qed

theorem default_from_revision_witness:
  "arg_from_sha board_args = None \<and> \<not> arg_empty board_args
   \<and> path_exists steady (arg_repo board_args) \<and> path_is_dir steady (arg_repo board_args)
   \<and> machine_of steady board_args = Some ''myboard''
   \<and> output_lines (to_proc steady board_args ''myboard'') \<noteq> []
   \<and> from_rev_of board_args (arg_repo board_args) (update_repo_of board_args) ''myboard''
       = Some ''myboard^''
   \<and> filter is_rev_parse (cmds_of (snd (script steady (board_args, []))))
       = [[''ostree'', ''--repo=/repo'', ''rev-parse'', ''myboard''],
          [''ostree'', ''--repo=/repo'', ''rev-parse'', ''myboard^'']]"
proof -
  have h1: "arg_from_sha board_args = None" and h2: "\<not> arg_empty board_args" by simp_all
  have h3: "path_exists steady (arg_repo board_args)"
    and h4: "path_is_dir steady (arg_repo board_args)"
    and h5: "machine_of steady board_args = Some ''myboard''"
    and h6: "output_lines (to_proc steady board_args ''myboard'') \<noteq> []"
    by (simp_all add: steady_def machine_of_def to_proc_def)
  from default_from_revision [OF h1 h2, of "''myboard''" steady "[]"] h1 h2 h3 h4 h5 h6
  show ?thesis by (simp add: update_repo_of_def to_rev_of_def)
qed

text \<open>
  Claim C4. With \<open>--empty\<close> set, whether or not \<open>--from_sha\<close> is given, the run
  makes at most one rev-parse, that of the "to" expression in the update repository, and
  every static-delta command of the run ends in \<open>--to <sha> --empty\<close> and has no
  \<open>--from\<close>; a run that returns has made such a command.
\<close>

theorem empty_delta_resolves_no_from:
  assumes "arg_empty a"
  shows "length (filter is_rev_parse (cmds_of (snd (script e (a, u))))) \<le> 1
         \<and> (\<forall>c \<in> set (cmds_of (snd (script e (a, u)))). is_rev_parse c \<longrightarrow>
              (\<exists>m. machine_of e a = Some m
                   \<and> c = rev_parse_command (update_repo_of a) (to_rev_of a m)))
         \<and> (\<forall>c \<in> set (cmds_of (snd (script e (a, u)))). is_static_delta c \<longrightarrow>
              (\<exists>to_sha. c = [''ostree'', ''--repo='' @ arg_repo a, ''static-delta'', ''generate'',
                              ''--max-chunk-size=2048'', ''--min-fallback-size=0'',
                              ''--filename='' @ os_path_join (arg_output a) ''superblock'',
                              ''--to'', to_sha, ''--empty'']))
         \<and> (fst (script e (a, u)) = Inr () \<longrightarrow>
              (\<exists>c \<in> set (cmds_of (snd (script e (a, u)))). is_static_delta c))"
proof -
  have none: "from_rev_of a (arg_repo a) (update_repo_of a) m = None" for m
    using assms by (simp add: from_rev_of_def)
  show ?thesis
  proof (cases rule: script_cases [of e a])
    case (bad_dir x)
    then show ?thesis by simp
  next
    case no_machine
    then show ?thesis by (simp add: is_static_delta_def is_rev_parse_def)
  next
    case (to_unresolved m)
    then show ?thesis by (auto dest: in_detection_commands)
  next
    case (from_unresolved m to_sha rest r)
    with none show ?thesis by simp
  next
    case (success_from m to_sha rest r from_sha rest')
    with none show ?thesis by simp
  next
    case (success_empty m to_sha rest)
    have sd: "static_delta_command (arg_repo a) (arg_output a) to_sha None
                \<in> set (cmds_of (snd (script e (a, u))))"
      using success_empty by (simp add: delta_commands_def)
    have "\<exists>c \<in> set (cmds_of (snd (script e (a, u)))). is_static_delta c"
      using sd by (intro bexI [of _ "static_delta_command (arg_repo a) (arg_output a) to_sha None"])
        (simp_all add: is_static_delta_def)
    moreover have "length (filter is_rev_parse (cmds_of (snd (script e (a, u))))) \<le> 1"
      using success_empty by simp
    moreover have "\<exists>m. machine_of e a = Some m
                   \<and> c = rev_parse_command (update_repo_of a) (to_rev_of a m)"
      if "c \<in> set (cmds_of (snd (script e (a, u))))" "is_rev_parse c" for c
      using that success_empty by (auto dest: in_detection_commands in_delta_commands)
    moreover have "\<exists>to_sha. c = [''ostree'', ''--repo='' @ arg_repo a, ''static-delta'',
                              ''generate'', ''--max-chunk-size=2048'', ''--min-fallback-size=0'',
                              ''--filename='' @ os_path_join (arg_output a) ''superblock'',
                              ''--to'', to_sha, ''--empty'']"
      if "c \<in> set (cmds_of (snd (script e (a, u))))" "is_static_delta c" for c
      using that success_empty
      by (auto dest: in_detection_commands in_delta_commands simp: static_delta_command_def)
    ultimately show ?thesis by blast
  qed
qed

theorem empty_delta_resolves_no_from_witness:
  "arg_empty empty_args
   \<and> arg_from_sha empty_args = Some ''def456''
   \<and> length (filter is_rev_parse (cmds_of (snd (script steady (empty_args, []))))) \<le> 1
   \<and> fst (script steady (empty_args, [])) = Inr ()
   \<and> cmds_of (snd (script steady (empty_args, [])))
       = [[''ostree'', ''--repo=/repo'', ''rev-parse'', ''myboard''],
          [''ostree'', ''--repo=/repo'', ''static-delta'', ''generate'',
           ''--max-chunk-size=2048'', ''--min-fallback-size=0'',
           ''--filename=/out/superblock'', ''--to'', ''abc123'', ''--empty''],
          [''tar'', ''-cf'', ''/out/data.tar'', ''--directory'', ''/out'',
           ''--exclude=./data.tar'', ''.''],
          [''gzip'', ''--force'', ''/out/data.tar'']]"
proof -
  have h: "arg_empty empty_args" by simp
  have ok: "path_exists steady (arg_repo empty_args)" "path_is_dir steady (arg_repo empty_args)"
    and m: "machine_of steady empty_args = Some ''myboard''"
    and t: "output_lines (to_proc steady empty_args ''myboard'') = ''abc123'' # []"
    and f: "from_rev_of empty_args (arg_repo empty_args) (update_repo_of empty_args) ''myboard''
              = None"
    by (simp_all add: steady_def machine_of_def to_proc_def from_rev_of_def)
  have "cmds_of (snd (script steady (empty_args, [])))
       = [[''ostree'', ''--repo=/repo'', ''rev-parse'', ''myboard''],
          [''ostree'', ''--repo=/repo'', ''static-delta'', ''generate'',
           ''--max-chunk-size=2048'', ''--min-fallback-size=0'',
           ''--filename=/out/superblock'', ''--to'', ''abc123'', ''--empty''],
          [''tar'', ''-cf'', ''/out/data.tar'', ''--directory'', ''/out'',
           ''--exclude=./data.tar'', ''.''],
          [''gzip'', ''--force'', ''/out/data.tar'']]"
    by (simp add: script_success_empty [OF ok m t f] detection_commands_def delta_commands_def
        update_repo_of_def to_rev_of_def static_delta_command_def os_path_join_def
        startswith_def)
  moreover have "fst (script steady (empty_args, [])) = Inr ()"
    by (simp add: script_success_empty [OF ok m t f])
  ultimately show ?thesis
    using empty_delta_resolves_no_from [OF h, of steady "[]"] by simp
qed

section \<open>Unresolved revisions and exit codes\<close>

text \<open>
  Claim C5. When a rev-parse of the run prints no line, the script warns that the revision
  is not found in the repository, naming both, and exits with status 1. The run makes a
  rev-parse only for the "to" expression and for a "from" expression that is not
  \<open>None\<close>.
\<close>

theorem unresolved_revision_exits_1:
  assumes "Exec (rev_parse_command R rv) p \<in> set (snd (script e (a, u)))"
    and "output_lines p = []"
  shows "exit_status (fst (script e (a, u))) = 1
         \<and> Warn (''rev '' @ rv @ '' not found in '' @ R) \<in> set (snd (script e (a, u)))"
proof (cases rule: script_cases [of e a])
  case (bad_dir x)
  with assms show ?thesis by simp
next
  case no_machine
  with assms show ?thesis by (auto dest: Exec_determine_not_rev_parse)
next
  case (to_unresolved m)
  with assms show ?thesis
    by (auto simp: exit_status_def dest: Exec_detection_not_rev_parse)
next
  case (from_unresolved m to_sha rest r)
  with assms show ?thesis
    by (auto simp: exit_status_def to_proc_def from_proc_def dest: Exec_detection_not_rev_parse)
next
  case (success_from m to_sha rest r from_sha rest')
  with assms show ?thesis
    by (auto simp: to_proc_def from_proc_def
        dest: Exec_detection_not_rev_parse Exec_delta_not_rev_parse)
next
  case (success_empty m to_sha rest)
  with assms show ?thesis
    by (auto simp: to_proc_def dest: Exec_detection_not_rev_parse Exec_delta_not_rev_parse)
qed

theorem unresolved_revision_exits_1_witness:
  "Exec [''ostree'', ''--repo=/repo'', ''rev-parse'', ''myboard'']
        \<lparr>stdout = [], stderr = [], runtime = 10\<rparr>
     \<in> set (snd (script silent (board_args, [])))
   \<and> output_lines \<lparr>stdout = [], stderr = [], runtime = 10\<rparr> = []
   \<and> exit_status (fst (script silent (board_args, []))) = 1
   \<and> Warn ''rev myboard not found in /repo'' \<in> set (snd (script silent (board_args, [])))"
proof -
  have ok: "path_exists silent (arg_repo board_args)" "path_is_dir silent (arg_repo board_args)"
    and m: "machine_of silent board_args = Some ''myboard''"
    and t: "output_lines (to_proc silent board_args ''myboard'') = []"
    by (simp_all add: silent_def machine_of_def to_proc_def)
  have h1: "Exec (rev_parse_command ''/repo'' ''myboard'')
                 \<lparr>stdout = [], stderr = [], runtime = 10\<rparr>
              \<in> set (snd (script silent (board_args, [])))"
    by (subst script_to_unresolved [OF ok m t])
       (simp add: detection_commands_def update_repo_of_def to_rev_of_def silent_def)
  have h2: "output_lines \<lparr>stdout = [], stderr = [], runtime = 10\<rparr> = []" by simp
  from unresolved_revision_exits_1 [OF h1 h2] h1 h2 show ?thesis by simp
qed

section \<open>The metadata file\<close>

lemma splitlines_line:
  "\<forall>c \<in> set s. \<not> islinebreak c \<Longrightarrow> splitlines (s @ CHR 0x0A # rest) = s # splitlines rest"
proof (induction s)
  case Nil
  show ?case by (cases rest) (simp_all add: islinebreak_def)
next
  case (Cons c s)
  then show ?case by simp
qed

lemma splitlines_no_linebreak:
  "\<forall>l \<in> set (splitlines s). \<forall>c \<in> set l. \<not> islinebreak c"
proof (induction s rule: splitlines.induct)
  case 1
  show ?case by simp
next
  case (2 c cs)
  show ?case
  proof (cases "islinebreak c")
    case True
    note lb = True
    show ?thesis
    proof (cases cs)
      case Nil
      with lb show ?thesis by simp
    next
      case (Cons d ds)
      show ?thesis
      proof (cases "c = CHR 0x0D \<and> d = CHR 0x0A")
        case True
        with lb Cons have "splitlines (c # cs) = [] # splitlines ds" by simp
        moreover from "2.IH"(1) [OF lb Cons True]
        have "\<forall>l \<in> set (splitlines ds). \<forall>c \<in> set l. \<not> islinebreak c" .
        ultimately show ?thesis by simp
      next
        case False
        with lb Cons have "splitlines (c # cs) = [] # splitlines cs" by auto
        moreover from "2.IH"(2) [OF lb Cons False]
        have "\<forall>l \<in> set (splitlines cs). \<forall>c \<in> set l. \<not> islinebreak c" .
        ultimately show ?thesis by simp
      qed
    qed
  next
    case False
    from "2.IH"(3) [OF False]
    have ih: "\<forall>l \<in> set (splitlines cs). \<forall>c \<in> set l. \<not> islinebreak c" .
    show ?thesis
    proof (cases "splitlines cs")
      case Nil
      with False have "splitlines (c # cs) = [[c]]" by simp
      with False show ?thesis by simp
    next
      case (Cons l ls)
      with False have "splitlines (c # cs) = (c # l) # ls" by simp
      with False ih Cons show ?thesis by simp
    qed
  qed
qed

lemma splitlines_metadata_text:
  assumes "\<forall>c \<in> set f. \<not> islinebreak c" and "\<forall>c \<in> set t. \<not> islinebreak c"
  shows "splitlines (metadata_text f t) = [''From-sha:'' @ f, ''To-sha:'' @ t]"
proof -
  have a: "\<forall>c \<in> set (''From-sha:'' @ f). \<not> islinebreak c"
    using assms(1) by (auto simp: islinebreak_def)
  have b: "\<forall>c \<in> set (''To-sha:'' @ t). \<not> islinebreak c"
    using assms(2) by (auto simp: islinebreak_def)
  have "metadata_text f t
          = (''From-sha:'' @ f) @ CHR 0x0A # ((''To-sha:'' @ t) @ CHR 0x0A # [])"
    by (simp add: metadata_text_def)
  then show ?thesis
    by (simp only: splitlines_line [OF a] splitlines_line [OF b] splitlines.simps)
qed

lemma Write_file_generate:
  "Write_file p txt \<in> set (snd (generate_static_delta_between_shas e repo out machine to_sha from_sha h))
     \<longleftrightarrow> p = os_path_join out ''metadata''
         \<and> txt = metadata_text (case from_sha of None \<Rightarrow> machine | Some f \<Rightarrow> f) to_sha"
  by (auto simp: generate_static_delta_eq generate_tarball_eq call_print_events_def
      call_events_def)

lemma newline_args_simps [simp]:
  "arg_repo newline_args = ''/repo''" "arg_output newline_args = ''/out''"
  "arg_update_repo newline_args = None"
  "arg_machine newline_args = Some (''my'' @ [CHR 0x0A] @ ''board'')"
  "arg_to_sha newline_args = Some ''abc123''" "arg_from_sha newline_args = None"
  "\<not> arg_generate_bin newline_args" "arg_empty newline_args"
  by (simp_all add: newline_args_def plain_args_def)

text \<open>
  Claim C6, as amended. The only file \<open>_generate_static_delta_between_shas\<close> writes is
  \<open>metadata\<close> in the output directory, with the "from" hash, or the machine name when
  there is none, and the "to" hash. When neither identifier holds a line-break character,
  the file is the two lines \<open>From-sha:<id>\<close> and \<open>To-sha:<id>\<close>, and taking the
  field names off the two lines gives the identifiers back unchanged. Every line of a
  command's output is free of line breaks (\<open>splitlines_no_linebreak\<close>), hence every
  resolved hash and every detected machine name.
\<close>

theorem metadata_round_trip:
  assumes "\<forall>c \<in> set (case from_sha of None \<Rightarrow> machine | Some f \<Rightarrow> f). \<not> islinebreak c"
    and "\<forall>c \<in> set to_sha. \<not> islinebreak c"
  shows "(Write_file p txt
            \<in> set (snd (generate_static_delta_between_shas e repo out machine to_sha from_sha h))
          \<longleftrightarrow> p = os_path_join out ''metadata''
              \<and> txt = metadata_text (case from_sha of None \<Rightarrow> machine | Some f \<Rightarrow> f) to_sha)
         \<and> splitlines (metadata_text (case from_sha of None \<Rightarrow> machine | Some f \<Rightarrow> f) to_sha)
             = [''From-sha:'' @ (case from_sha of None \<Rightarrow> machine | Some f \<Rightarrow> f),
                ''To-sha:'' @ to_sha]
         \<and> drop (length ''From-sha:'')
               (splitlines (metadata_text (case from_sha of None \<Rightarrow> machine | Some f \<Rightarrow> f)
                              to_sha) ! 0)
             = (case from_sha of None \<Rightarrow> machine | Some f \<Rightarrow> f)
         \<and> drop (length ''To-sha:'')
               (splitlines (metadata_text (case from_sha of None \<Rightarrow> machine | Some f \<Rightarrow> f)
                              to_sha) ! 1)
             = to_sha"
  using splitlines_metadata_text [OF assms]
  by (simp add: Write_file_generate)

theorem metadata_round_trip_witness:
  "splitlines (metadata_text ''def456'' ''abc123'') = [''From-sha:def456'', ''To-sha:abc123'']
   \<and> drop (length ''From-sha:'') (splitlines (metadata_text ''def456'' ''abc123'') ! 0) = ''def456''
   \<and> drop (length ''To-sha:'') (splitlines (metadata_text ''def456'' ''abc123'') ! 1) = ''abc123''
   \<and> splitlines (metadata_text ''myboard'' ''abc123'') = [''From-sha:myboard'', ''To-sha:abc123'']"
proof -
  have h1: "\<forall>c \<in> set (case Some ''def456'' of None \<Rightarrow> ''myboard'' | Some f \<Rightarrow> f).
              \<not> islinebreak c"
    and h2: "\<forall>c \<in> set ''abc123''. \<not> islinebreak c"
    and h3: "\<forall>c \<in> set (case None of None \<Rightarrow> ''myboard'' | Some f \<Rightarrow> f). \<not> islinebreak c"
    by (simp_all add: islinebreak_def)
  from metadata_round_trip [OF h1 h2] metadata_round_trip [OF h3 h2]
  show ?thesis by simp
qed

text \<open>
  The claim as it stands fails for a machine name with a line break, which \<open>--machine\<close>
  can give: with \<open>--empty\<close> the name goes into the file as it is, the file has three
  lines, and the \<open>From-sha\<close> line holds only the first part of the name. Written by
  \<open>_generate_metadata\<close> itself, two different pairs of identifiers can give the same
  file.
\<close>

theorem metadata_of_machine_with_line_break:
  "Write_file ''/out/metadata'' (metadata_text (''my'' @ [CHR 0x0A] @ ''board'') ''abc123'')
     \<in> set (snd (script steady (newline_args, [])))
   \<and> splitlines (metadata_text (''my'' @ [CHR 0x0A] @ ''board'') ''abc123'')
       = [''From-sha:my'', ''board'', ''To-sha:abc123'']
   \<and> drop (length ''From-sha:'')
         (splitlines (metadata_text (''my'' @ [CHR 0x0A] @ ''board'') ''abc123'') ! 0) = ''my''
   \<and> metadata_text (''a'' @ [CHR 0x0A] @ ''To-sha:b'') ''c''
       = metadata_text ''a'' (''b'' @ [CHR 0x0A] @ ''To-sha:c'')"
proof -
  have ok: "path_exists steady (arg_repo newline_args)" "path_is_dir steady (arg_repo newline_args)"
    and m: "machine_of steady newline_args = Some (''my'' @ [CHR 0x0A] @ ''board'')"
    and t: "output_lines (to_proc steady newline_args (''my'' @ [CHR 0x0A] @ ''board''))
              = ''abc123'' # []"
    and f: "from_rev_of newline_args (arg_repo newline_args) (update_repo_of newline_args)
              (''my'' @ [CHR 0x0A] @ ''board'') = None"
    by (simp_all add: steady_def machine_of_def to_proc_def from_rev_of_def)
  have w: "Write_file ''/out/metadata''
             (metadata_text (''my'' @ [CHR 0x0A] @ ''board'') ''abc123'')
           \<in> set (snd (script steady (newline_args, [])))"
    by (subst script_success_empty [OF ok m t f])
       (simp add: delta_events_def update_repo_of_def os_path_join_def startswith_def Let_def)
  have l: "splitlines (metadata_text (''my'' @ [CHR 0x0A] @ ''board'') ''abc123'')
             = [''From-sha:my'', ''board'', ''To-sha:abc123'']"
    by (simp add: metadata_text_def islinebreak_def)
  from w l show ?thesis by (simp add: metadata_text_def)
qed

text \<open>
  Claim C7. When the source and update repositories are the same path, the run makes no
  pull-local. When they differ, a run that returns has made exactly one pull-local, with the
  source repository as destination, the update repository as origin and the resolved "to"
  hash, and has made it before its one static-delta command; a run that does not return has
  made neither.
\<close>

theorem transfer_when_repos_differ:
  "(arg_repo a = update_repo_of a \<longrightarrow>
      filter is_pull_local (cmds_of (snd (script e (a, u)))) = [])
   \<and> (arg_repo a \<noteq> update_repo_of a \<longrightarrow>
        (fst (script e (a, u)) \<noteq> Inr ()
         \<and> filter (\<lambda>c. is_pull_local c \<or> is_static_delta c)
              (cmds_of (snd (script e (a, u)))) = [])
        \<or> (\<exists>m to_sha rest from_sha.
              fst (script e (a, u)) = Inr ()
              \<and> machine_of e a = Some m
              \<and> output_lines (to_proc e a m) = to_sha # rest
              \<and> filter (\<lambda>c. is_pull_local c \<or> is_static_delta c)
                   (cmds_of (snd (script e (a, u))))
                 = [pull_local_command (arg_repo a) (update_repo_of a) to_sha,
                    static_delta_command (arg_repo a) (arg_output a) to_sha from_sha]))"
proof (cases rule: script_cases [of e a])
  case (bad_dir x)
  then show ?thesis by simp
next
  case no_machine
  then show ?thesis by simp
next
  case (to_unresolved m)
  then show ?thesis by simp
next
  case (from_unresolved m to_sha rest r)
  then show ?thesis by simp
next
  case (success_from m to_sha rest r from_sha rest')
  then show ?thesis by auto
next
  case (success_empty m to_sha rest)
  then show ?thesis by auto
qed

theorem transfer_when_repos_differ_witness:
  "arg_repo two_repo_args \<noteq> update_repo_of two_repo_args
   \<and> fst (script steady (two_repo_args, [])) = Inr ()
   \<and> filter (\<lambda>c. is_pull_local c \<or> is_static_delta c)
        (cmds_of (snd (script steady (two_repo_args, []))))
       = [[''ostree'', ''--repo=/repo'', ''pull-local'', ''/update'', ''abc123''],
          [''ostree'', ''--repo=/repo'', ''static-delta'', ''generate'',
           ''--max-chunk-size=2048'', ''--min-fallback-size=0'',
           ''--filename=/out/superblock'', ''--to'', ''abc123'', ''--from'', ''abc123'']]
   \<and> arg_repo board_args = update_repo_of board_args
   \<and> filter is_pull_local (cmds_of (snd (script steady (board_args, [])))) = []"
proof -
  have d: "arg_repo two_repo_args \<noteq> update_repo_of two_repo_args"
    and s: "arg_repo board_args = update_repo_of board_args"
    by (simp_all add: update_repo_of_def)
  have ok: "path_exists steady (arg_repo two_repo_args)"
      "path_is_dir steady (arg_repo two_repo_args)"
    and m: "machine_of steady two_repo_args = Some ''myboard''"
    and t: "output_lines (to_proc steady two_repo_args ''myboard'') = ''abc123'' # []"
    and f: "from_rev_of two_repo_args (arg_repo two_repo_args) (update_repo_of two_repo_args)
              ''myboard'' = Some ''myboard''"
    and g: "output_lines (from_proc steady two_repo_args ''myboard'' ''myboard'') = ''abc123'' # []"
    by (simp_all add: steady_def machine_of_def to_proc_def from_proc_def from_rev_of_def
        update_repo_of_def)
  have r: "fst (script steady (two_repo_args, [])) = Inr ()"
    by (simp add: script_success_from [OF ok m t f g])
  have c: "filter (\<lambda>c. is_pull_local c \<or> is_static_delta c)
        (cmds_of (snd (script steady (two_repo_args, []))))
       = [[''ostree'', ''--repo=/repo'', ''pull-local'', ''/update'', ''abc123''],
          [''ostree'', ''--repo=/repo'', ''static-delta'', ''generate'',
           ''--max-chunk-size=2048'', ''--min-fallback-size=0'',
           ''--filename=/out/superblock'', ''--to'', ''abc123'', ''--from'', ''abc123'']]"
    by (simp add: script_success_from [OF ok m t f g] update_repo_of_def
        static_delta_command_def os_path_join_def startswith_def)
  from transfer_when_repos_differ [of board_args steady "[]"] s
  have "filter is_pull_local (cmds_of (snd (script steady (board_args, [])))) = []" by blast
  with d s r c show ?thesis by simp
qed

section \<open>Runs that the operating system cuts short\<close>















lemma rev_parse_os_None [simp]: "rev_parse_in_repo_os os e repo None = return_io None"
  by (simp add: rev_parse_in_repo_os_def)



lemma calm_pair_Inr [simp]: "calm os a (Inr v, []) "
  by (simp add: calm_def)












lemma unresolved_call_events [simp]:
  "list_ex unresolved_event (call_events e h c)
     \<longleftrightarrow> is_rev_parse c \<and> output_lines (tool e h c) = []"
  by (simp add: call_events_def unresolved_event_def)

lemma undetermined_call_events [simp]:
  "list_ex (undetermined_event repo) (call_events e h c)
     \<longleftrightarrow> c = refs_command repo
         \<and> length (remove_ostree_refs 0 (output_lines (tool e h c))) \<noteq> 1"
  by (simp add: call_events_def undetermined_event_def)





lemma no_event_unknown_warning [simp]:
  "\<not> list_ex unresolved_event (unknown_warning u)"
  "\<not> list_ex (undetermined_event repo) (unknown_warning u)"
  by (simp_all add: unknown_warning_def unresolved_event_def undetermined_event_def)

lemma no_event_map_Print [simp]:
  "\<not> list_ex unresolved_event (map (\<lambda>x. Print (f x)) xs)"
  "\<not> list_ex (undetermined_event repo) (map (\<lambda>x. Print (f x)) xs)"
  by (induction xs) (simp_all add: unresolved_event_def undetermined_event_def)

lemma no_event_simple [simp]:
  "\<not> unresolved_event (Print s)" "\<not> unresolved_event (Print_list c)"
  "\<not> unresolved_event (Makedirs p)" "\<not> unresolved_event (Warn s)"
  "\<not> undetermined_event repo (Print s)" "\<not> undetermined_event repo (Print_list c)"
  "\<not> undetermined_event repo (Makedirs p)" "\<not> undetermined_event repo (Warn s)"
  by (simp_all add: unresolved_event_def undetermined_event_def)




section \<open>Unrecognised arguments\<close>

text \<open>
  Claim C9. Arguments the parser does not recognise add one warning that lists them, in front
  of everything else, and change nothing: the result and the rest of the events are those
  of the same command line without them.
\<close>

theorem unknown_arguments_only_warn:
  assumes "u \<noteq> []"
  shows "script e (a, u)
           = (fst (script e (a, [])),
              Warn (''unsupported arguments: '' @ repr_list u) # snd (script e (a, [])))"
  by (cases rule: script_cases [of e a])
     (simp_all add: Warn_unknown_warning [OF assms] unknown_warning_def [of "[]"])

theorem unknown_arguments_only_warn_witness:
  "[''--verbose''] \<noteq> []
   \<and> script steady (board_args, [''--verbose''])
       = (fst (script steady (board_args, [])),
          Warn ''unsupported arguments: ['--verbose']'' # snd (script steady (board_args, [])))
   \<and> exit_status (fst (script steady (board_args, [''--verbose'']))) = 0"
proof -
  have h: "[''--verbose''] \<noteq> ([] :: string list)" by simp
  have r: "repr_list [''--verbose''] = ''['--verbose']''"
    by (simp add: repr_list_def repr_str_def repr_char_def isprintable_def Let_def)
  have ok: "path_exists steady (arg_repo board_args)" "path_is_dir steady (arg_repo board_args)"
    and m: "machine_of steady board_args = Some ''myboard''"
    and t: "output_lines (to_proc steady board_args ''myboard'') = ''abc123'' # []"
    and f: "from_rev_of board_args (arg_repo board_args) (update_repo_of board_args) ''myboard''
              = Some ''myboard^''"
    and g: "output_lines (from_proc steady board_args ''myboard'' ''myboard^'') = ''abc123'' # []"
    by (simp_all add: steady_def machine_of_def to_proc_def from_proc_def from_rev_of_def
        update_repo_of_def)
  have "fst (script steady (board_args, [])) = Inr ()"
    by (simp add: script_success_from [OF ok m t f g])
  with unknown_arguments_only_warn [OF h, of steady board_args] r
  show ?thesis by (simp add: exit_status_def)
qed

section \<open>Fields of the log\<close>

lemma collect_values_Cons:
  "collect_values data (l # ls) acc =
     (if startswith l data
      then (if has_value data l then collect_values data ls (acc @ [value_of data l])
            else Inl IndexError)
      else collect_values data ls acc)"
  by (simp add: has_value_def value_of_def index_def split_once_def)

lemma collect_values_eq:
  "collect_values data ls acc =
     (if \<forall>l \<in> set (filter (\<lambda>line. startswith line data) ls). has_value data l
      then Inr (acc @ map (value_of data) (filter (\<lambda>line. startswith line data) ls))
      else Inl IndexError)"
proof (induction ls arbitrary: acc)
  case Nil
  show ?case by simp
next
  case (Cons l ls)
  show ?case
    unfolding collect_values_Cons Cons.IH by auto
qed

lemma fst_get_data_from_repo:
  "fst (get_data_from_repo e repo machine data h) =
     (case collect_values data
             (output_lines (tool e h [''ostree'', ''--repo='' @ repo, ''log'', machine])) [] of
        Inl x \<Rightarrow> Inl x
      | Inr values \<Rightarrow> if values \<noteq> [] then Inr (Some values) else Inr None)"
  by (simp add: get_data_from_repo_def output_lines_def split: sum.splits)

lemma output_lines_short_log:
  "output_lines \<lparr>stdout = short_log, stderr = err, runtime = n\<rparr>
     = [''commit abc123'', ''Date:  2021-03-01 10:00'', [], ''    first'', ''commit def456'']"
  by (simp add: output_lines_def short_log_def rstrip_def isspace_def islinebreak_def)

text \<open>
  Claim C10, as amended. \<open>_get_data_from_repo\<close> never returns an empty list, and so
  neither does the lookup of the hashes. When every line that starts with the field name has
  a value to take, it returns \<open>None\<close> if no line starts with the field name and
  otherwise the list of the values, one for each such line in order. When some such line has
  no value, it raises IndexError.
\<close>

theorem get_data_from_repo_result:
  "fst (get_data_from_repo e repo machine data h) \<noteq> Inr (Some [])
   \<and> fst (get_shas_from_repo e repo machine h) \<noteq> Inr (Some [])
   \<and> ((\<forall>l \<in> set (matching_lines e h repo machine data). has_value data l) \<longrightarrow>
        fst (get_data_from_repo e repo machine data h)
          = (if matching_lines e h repo machine data = [] then Inr None
             else Inr (Some (map (value_of data) (matching_lines e h repo machine data)))))
   \<and> ((\<exists>l \<in> set (matching_lines e h repo machine data). \<not> has_value data l) \<longrightarrow>
        fst (get_data_from_repo e repo machine data h) = Inl IndexError)"
  by (auto simp: fst_get_data_from_repo collect_values_eq matching_lines_def
      get_shas_from_repo_def)

theorem get_data_from_repo_result_witness:
  "fst (get_data_from_repo two_commit_repo ''/repo'' ''myboard'' ''commit'' [])
     = Inr (Some [''abc123'', ''def456''])
   \<and> fst (get_data_from_repo two_commit_repo ''/repo'' ''myboard'' ''Date'' [])
     = Inr (Some [''2021-03-01 10:00''])
   \<and> fst (get_data_from_repo two_commit_repo ''/repo'' ''myboard'' ''Version'' [])
     = Inr None"
proof -
  let ?e = "two_commit_repo"
  have c: "matching_lines ?e [] ''/repo'' ''myboard'' ''commit''
             = [''commit abc123'', ''commit def456'']"
    and d: "matching_lines ?e [] ''/repo'' ''myboard'' ''Date'' = [''Date:  2021-03-01 10:00'']"
    and v: "matching_lines ?e [] ''/repo'' ''myboard'' ''Version'' = []"
    by (simp_all add: matching_lines_def two_commit_repo_def output_lines_short_log
        startswith_def)
  have hc: "\<forall>l \<in> set (matching_lines ?e [] ''/repo'' ''myboard'' ''commit'').
              has_value ''commit'' l"
    unfolding c by (simp add: has_value_def isspace_def)
  have hd: "\<forall>l \<in> set (matching_lines ?e [] ''/repo'' ''myboard'' ''Date''). has_value ''Date'' l"
    unfolding d by (simp add: has_value_def)
  have hv: "\<forall>l \<in> set (matching_lines ?e [] ''/repo'' ''myboard'' ''Version'').
              has_value ''Version'' l"
    unfolding v by simp
  have vc: "map (value_of ''commit'') [''commit abc123'', ''commit def456'']
              = [''abc123'', ''def456'']"
    by (simp add: value_of_def isspace_def)
  have vd: "map (value_of ''Date'') [''Date:  2021-03-01 10:00''] = [''2021-03-01 10:00'']"
    by (simp add: value_of_def split_once_def strip_def lstrip_def rstrip_def isspace_def)
  from get_data_from_repo_result [of ?e "''/repo''" "''myboard''" "''commit''" "[]"] hc
  have 1: "fst (get_data_from_repo ?e ''/repo'' ''myboard'' ''commit'' [])
             = Inr (Some [''abc123'', ''def456''])"
    unfolding c vc by simp
  from get_data_from_repo_result [of ?e "''/repo''" "''myboard''" "''Date''" "[]"] hd
  have 2: "fst (get_data_from_repo ?e ''/repo'' ''myboard'' ''Date'' [])
             = Inr (Some [''2021-03-01 10:00''])"
    unfolding d vd by simp
  from get_data_from_repo_result [of ?e "''/repo''" "''myboard''" "''Version''" "[]"] hv
  have 3: "fst (get_data_from_repo ?e ''/repo'' ''myboard'' ''Version'' []) = Inr None"
    unfolding v by simp
  from 1 2 3 show ?thesis by simp
qed

text \<open>
  The claim as it stands fails on a log with a line that starts with the field name and has
  nothing after it: the function raises IndexError, returning neither a list nor
  \<open>None\<close>.
\<close>

theorem get_data_from_repo_line_without_value:
  "fst (get_data_from_repo bare_commit_repo ''/repo'' ''myboard'' ''commit'' []) = Inl IndexError
   \<and> fst (get_shas_from_repo bare_commit_repo ''/repo'' ''myboard'' []) = Inl IndexError"
  by (simp add: get_shas_from_repo_def fst_get_data_from_repo bare_commit_repo_def
      output_lines_def rstrip_def isspace_def islinebreak_def startswith_def index_def)


end
